theory Spec2Isabelle
  imports Complex_Main "HOL-Library.Sublist"
begin

section \<open>The batch loop of the employment processor\<close>

text \<open>
  Both batched analyses of \<^verbatim>\<open>employment_processor.py\<close> run the same loop:
  \<^verbatim>\<open>
  for batch_start in range(0, total_records, batch_size):
      batch_end = min(batch_start + batch_size, total_records)
      batch_logs = status_logs.slice(batch_start, batch_end - batch_start)
  \<close>
  The source fixes \<open>batch_size = 5_000_000\<close>; the model takes it as an argument so that
  the loop can be studied at every positive size. Python's \<open>range\<close> rejects a step of
  zero with a ValueError, which the fixed constant excludes; the model's loop yields no
  range there, and every statement below is about a positive size.
\<close>

function batch_ranges_from :: "nat \<Rightarrow> nat \<Rightarrow> nat \<Rightarrow> (nat \<times> nat) list" where
  "batch_ranges_from batch_start total_records batch_size =
     (if 0 < batch_size \<and> batch_start < total_records
      then (batch_start, min (batch_start + batch_size) total_records)
             # batch_ranges_from (batch_start + batch_size) total_records batch_size
      else [])"
  by pat_completeness auto
termination
  by (relation "measure (\<lambda>(batch_start, total_records, batch_size). total_records - batch_start)") auto

declare batch_ranges_from.simps [simp del]

definition batch_ranges :: "nat \<Rightarrow> nat \<Rightarrow> (nat \<times> nat) list" where
  "batch_ranges total_records batch_size = batch_ranges_from 0 total_records batch_size"

definition batch_size_default :: nat where
  "batch_size_default = 5000000"

text \<open>Polars' \<open>DataFrame.slice(offset, length)\<close> for a non-negative offset.\<close>

definition slice :: "nat \<Rightarrow> nat \<Rightarrow> 'a list \<Rightarrow> 'a list" where
  "slice offset len xs = take len (drop offset xs)"

definition batches :: "nat \<Rightarrow> 'a list \<Rightarrow> 'a list list" where
  "batches batch_size status_logs =
     map (\<lambda>(batch_start, batch_end). slice batch_start (batch_end - batch_start) status_logs)
       (batch_ranges (length status_logs) batch_size)"

definition range_rows :: "nat \<times> nat \<Rightarrow> nat list" where
  "range_rows r = [fst r ..< snd r]"

section \<open>Column operations of the dataframe library\<close>

text \<open>
  The source computes with Polars expressions. The few it uses are modelled on lists:
  a column is a list of optional values (\<open>None\<close> is Polars' null), a floating-point
  number is an exact rational, and an instant is a whole number of seconds since
  1970-01-01T00:00:00Z (the loader's format has a resolution of one second).

  \<open>group_by\<close> without \<open>maintain_order\<close> returns its groups in no specified order; the
  model lists them by the position of each key's last row. Null is a key like any other.
  Statements about a grouped table are therefore made about its set of rows or about
  the row of a given key, never about row order.
\<close>

definition group_by :: "('a \<Rightarrow> 'k) \<Rightarrow> 'a list \<Rightarrow> ('k \<times> 'a list) list" where
  "group_by key xs = map (\<lambda>k. (k, filter (\<lambda>x. key x = k) xs)) (remdups (map key xs))"

fun drop_nulls :: "'a option list \<Rightarrow> 'a list" where
  "drop_nulls [] = []"
| "drop_nulls (None # xs) = drop_nulls xs"
| "drop_nulls (Some v # xs) = v # drop_nulls xs"

text \<open>\<open>Expr.mean\<close>: nulls are skipped; the mean of no value is null.\<close>

definition mean :: "rat option list \<Rightarrow> rat option" where
  "mean xs =
     (let vs = drop_nulls xs
      in if vs = [] then None else Some (sum_list vs / of_nat (length vs)))"

text \<open>The mean of a Boolean column counts \<open>True\<close> as 1 and \<open>False\<close> as 0.\<close>

definition bool_mean :: "bool list \<Rightarrow> rat option" where
  "bool_mean bs = mean (map (\<lambda>b. Some (if b then 1 else 0)) bs)"

text \<open>\<open>Expr.n_unique\<close>: the number of distinct values, null counted as one of them.\<close>

definition n_unique :: "'a list \<Rightarrow> nat" where
  "n_unique xs = length (remdups xs)"

text \<open>\<open>Expr.min\<close> and \<open>Expr.max\<close>: nulls are skipped; null when nothing is left.\<close>

definition col_min :: "int option list \<Rightarrow> int option" where
  "col_min xs = (case drop_nulls xs of [] \<Rightarrow> None | v # vs \<Rightarrow> Some (fold min vs v))"

definition col_max :: "int option list \<Rightarrow> int option" where
  "col_max xs = (case drop_nulls xs of [] \<Rightarrow> None | v # vs \<Rightarrow> Some (fold max vs v))"

text \<open>\<open>dt.total_days\<close> of a duration in seconds: whole days, rounded towards zero.\<close>

definition total_days :: "int \<Rightarrow> int" where
  "total_days d = (if 0 \<le> d then d div 86400 else - ((- d) div 86400))"

text \<open>
  \<open>dt.strftime("%Y-%m")\<close>: the civil year and month of an instant in the proleptic
  Gregorian calendar. \<open>%Y\<close> prints a year from 0 to 9999 with four digits, a later year
  with a plus sign and all its digits, and a year before 0 with a minus sign and at
  least four digits; \<open>%m\<close> prints the month with two digits.
\<close>

definition civil_year_month :: "int \<Rightarrow> int \<times> int" where
  "civil_year_month secs =
     (let z = secs div 86400 + 719468;
          era = z div 146097;
          doe = z mod 146097;
          yoe = (doe - doe div 1460 + doe div 36524 - doe div 146096) div 365;
          doy = doe - (365 * yoe + yoe div 4 - yoe div 100);
          mp = (5 * doy + 2) div 153;
          m = (if mp < 10 then mp + 3 else mp - 9);
          y = yoe + era * 400
      in (if m \<le> 2 then y + 1 else y, m))"

definition digit_char :: "int \<Rightarrow> char" where
  "digit_char d = ''0123456789'' ! nat (d mod 10)"

function dec_text :: "int \<Rightarrow> string" where
  "dec_text n = (if n < 10 then [digit_char n] else dec_text (n div 10) @ [digit_char n])"
  by pat_completeness auto
termination
  by (relation "measure nat") auto

declare dec_text.simps [simp del]

definition year_text :: "int \<Rightarrow> string" where
  "year_text y =
     (let a = \<bar>y\<bar>;
          digits = (if a \<le> 9999
                    then [digit_char (a div 1000), digit_char (a div 100), digit_char (a div 10),
                          digit_char a]
                    else dec_text a)
      in if y < 0 then CHR ''-'' # digits
         else if 9999 < y then CHR ''+'' # digits
         else digits)"

definition strftime_ym :: "int \<Rightarrow> string" where
  "strftime_ym secs =
     (let (y, m) = civil_year_month secs
      in year_text y @ [CHR ''-'', digit_char (m div 10), digit_char m])"

record 'r data_frame =
  columns :: "string list"
  rows :: "'r list"

section \<open>The participant status log\<close>

text \<open>A row of the normalized status log, as \<open>load_participant_status_logs\<close> returns it.\<close>

record status_row =
  timestamp :: "int option"
  currentLocation :: "string option"
  participantId :: "int option"
  currentMode :: "string option"
  hungerStatus :: "string option"
  sleepStatus :: "string option"
  apartmentId :: "int option"
  availableBalance :: "rat option"
  jobId :: "int option"
  financialStatus :: "string option"
  dailyFoodBudget :: "rat option"
  weeklyExtraBudget :: "rat option"

section \<open>Employment stability\<close>

text \<open>One row of a batch's \<open>batch_stability\<close> frame.\<close>

record stability_row =
  s_participantId :: "int option"
  s_month :: "string option"
  s_employment_rate :: "rat option"
  s_job_changes :: nat
  s_avg_balance :: "rat option"

text \<open>The final frame adds the column \<open>stability_score\<close>.\<close>

record stability_final = stability_row +
  s_stability_score :: "rat option"

definition month_of :: "status_row \<Rightarrow> string option" where
  "month_of r = map_option strftime_ym (timestamp r)"

definition stability_key :: "status_row \<Rightarrow> int option \<times> string option" where
  "stability_key r = (participantId r, month_of r)"

definition is_employed :: "status_row \<Rightarrow> bool" where
  "is_employed r = (jobId r \<noteq> None)"

definition stability_agg :: "(int option \<times> string option) \<times> status_row list \<Rightarrow> stability_row" where
  "stability_agg g =
     \<lparr>s_participantId = fst (fst g), s_month = snd (fst g),
      s_employment_rate = bool_mean (map is_employed (snd g)),
      s_job_changes = n_unique (map jobId (snd g)),
      s_avg_balance = mean (map availableBalance (snd g))\<rparr>"

definition batch_stability :: "status_row list \<Rightarrow> stability_row list" where
  "batch_stability batch_logs =
     filter (\<lambda>g. s_employment_rate g \<noteq> None)
       (map stability_agg (group_by stability_key batch_logs))"

text \<open>The pool \<open>all_stability_data\<close> after the loop: the non-empty batch frames, in order.\<close>

definition all_stability_data :: "nat \<Rightarrow> status_row list \<Rightarrow> stability_row list list" where
  "all_stability_data batch_size status_logs =
     filter (\<lambda>batch_stability. 0 < length batch_stability)
       (map batch_stability (batches batch_size status_logs))"

definition partial_key :: "stability_row \<Rightarrow> int option \<times> string option" where
  "partial_key g = (s_participantId g, s_month g)"

definition stability_reagg :: "(int option \<times> string option) \<times> stability_row list \<Rightarrow> stability_row" where
  "stability_reagg g =
     \<lparr>s_participantId = fst (fst g), s_month = snd (fst g),
      s_employment_rate = mean (map s_employment_rate (snd g)),
      s_job_changes = sum_list (map s_job_changes (snd g)),
      s_avg_balance = mean (map s_avg_balance (snd g))\<rparr>"

definition with_stability_score :: "stability_row \<Rightarrow> stability_final" where
  "with_stability_score g =
     \<lparr>s_participantId = s_participantId g, s_month = s_month g,
      s_employment_rate = s_employment_rate g, s_job_changes = s_job_changes g,
      s_avg_balance = s_avg_balance g, s_stability_score = s_employment_rate g\<rparr>"

definition stability_batched :: "nat \<Rightarrow> status_row list \<Rightarrow> stability_final data_frame" where
  "stability_batched batch_size status_logs =
     (let all_stability_data = all_stability_data batch_size status_logs
      in if all_stability_data = []
         then \<lparr>columns = [''participantId'', ''month'', ''employment_rate'',
                            ''job_changes'', ''avg_balance''],
               rows = []\<rparr>
         else
           let combined_stability = concat all_stability_data;
               employment_stability =
                 filter (\<lambda>g. s_employment_rate g \<noteq> None)
                   (map stability_reagg (group_by partial_key combined_stability))
           in \<lparr>columns = [''participantId'', ''month'', ''employment_rate'',
                           ''job_changes'', ''avg_balance'', ''stability_score''],
               rows = map with_stability_score employment_stability\<rparr>)"

definition analyze_employment_stability :: "status_row list \<Rightarrow> stability_final data_frame" where
  "analyze_employment_stability status_logs = stability_batched batch_size_default status_logs"

section \<open>Turnover rates\<close>

text \<open>One row of a batch's \<open>batch_tenure\<close> frame.\<close>

record tenure_row =
  t_participantId :: "int option"
  t_jobId :: "int option"
  t_employerId :: "int option"
  t_start_date :: "int option"
  t_end_date :: "int option"
  t_tenure_days :: "int option"
  t_start_month :: "string option"

text \<open>One row of the final turnover frame.\<close>

record turnover_row =
  r_month :: "string option"
  r_employerId :: "int option"
  r_new_hires :: nat
  r_avg_tenure_days :: "rat option"
  r_turnover_rate :: rat

text \<open>
  \<open>.filter(jobId.is_not_null()).select([participantId, timestamp, jobId]).unique()\<close>
\<close>

definition employed_records :: "status_row list \<Rightarrow> (int option \<times> int option \<times> int option) list" where
  "employed_records batch_logs =
     remdups (map (\<lambda>r. (participantId r, timestamp r, jobId r))
                (filter (\<lambda>r. jobId r \<noteq> None) batch_logs))"

text \<open>
  The column \<open>employerId\<close> is \<open>jobs_lookup.get(jobId)\<close>, a dictionary built once from the
  jobs table; rows whose job is not in the dictionary are filtered out.
\<close>

definition employment_periods ::
  "(int \<rightharpoonup> int) \<Rightarrow> (int option \<times> int option \<times> int option) list
     \<Rightarrow> (int option \<times> int option \<times> int option \<times> int option) list" where
  "employment_periods jobs_lookup employed =
     filter (\<lambda>(p, t, j, e). e \<noteq> None)
       (map (\<lambda>(p, t, j). (p, t, j, Option.bind j jobs_lookup)) employed)"

definition period_key ::
  "int option \<times> int option \<times> int option \<times> int option \<Rightarrow> int option \<times> int option \<times> int option" where
  "period_key x = (case x of (p, t, j, e) \<Rightarrow> (p, j, e))"

definition period_timestamp :: "int option \<times> int option \<times> int option \<times> int option \<Rightarrow> int option" where
  "period_timestamp x = (case x of (p, t, j, e) \<Rightarrow> t)"

definition tenure_agg ::
  "(int option \<times> int option \<times> int option)
     \<times> (int option \<times> int option \<times> int option \<times> int option) list \<Rightarrow> tenure_row" where
  "tenure_agg g =
     (case g of ((p, j, e), periods) \<Rightarrow>
        let start_date = col_min (map period_timestamp periods);
            end_date = col_max (map period_timestamp periods)
        in \<lparr>t_participantId = p, t_jobId = j, t_employerId = e,
            t_start_date = start_date, t_end_date = end_date,
            t_tenure_days =
              (case (start_date, end_date) of
                 (Some s, Some e) \<Rightarrow> Some (total_days (e - s))
               | _ \<Rightarrow> None),
            t_start_month = map_option strftime_ym start_date\<rparr>)"

text \<open>\<open>.filter(tenure_days >= 0)\<close>: a null comparison does not pass the filter.\<close>

definition tenure_non_negative :: "tenure_row \<Rightarrow> bool" where
  "tenure_non_negative t = (case t_tenure_days t of None \<Rightarrow> False | Some d \<Rightarrow> 0 \<le> d)"

definition batch_tenure :: "(int \<rightharpoonup> int) \<Rightarrow> status_row list \<Rightarrow> tenure_row list" where
  "batch_tenure jobs_lookup batch_logs =
     (let employed = employed_records batch_logs
      in if length employed = 0 then []
         else
           let periods = employment_periods jobs_lookup employed
           in if length periods = 0 then []
              else filter tenure_non_negative (map tenure_agg (group_by period_key periods)))"

text \<open>The pool \<open>all_turnover_data\<close> after the loop.\<close>

definition all_turnover_data :: "(int \<rightharpoonup> int) \<Rightarrow> nat \<Rightarrow> status_row list \<Rightarrow> tenure_row list list" where
  "all_turnover_data jobs_lookup batch_size status_logs =
     filter (\<lambda>batch_tenure. 0 < length batch_tenure)
       (map (batch_tenure jobs_lookup) (batches batch_size status_logs))"

definition tenure_key :: "tenure_row \<Rightarrow> string option \<times> int option" where
  "tenure_key t = (t_start_month t, t_employerId t)"

definition short_tenure :: "tenure_row \<Rightarrow> bool" where
  "short_tenure t = (case t_tenure_days t of None \<Rightarrow> False | Some d \<Rightarrow> d \<le> 30)"

definition turnover_agg :: "(string option \<times> int option) \<times> tenure_row list \<Rightarrow> turnover_row" where
  "turnover_agg g =
     (let new_hires = length (snd g);
          short_tenure_count = length (filter short_tenure (snd g))
      in \<lparr>r_month = fst (fst g), r_employerId = snd (fst g),
          r_new_hires = new_hires,
          r_avg_tenure_days = mean (map (\<lambda>t. map_option of_int (t_tenure_days t)) (snd g)),
          r_turnover_rate = of_nat short_tenure_count / of_nat new_hires\<rparr>)"

definition turnover_batched ::
  "(int \<rightharpoonup> int) \<Rightarrow> nat \<Rightarrow> status_row list \<Rightarrow> turnover_row data_frame" where
  "turnover_batched jobs_lookup batch_size status_logs =
     (let all_turnover_data = all_turnover_data jobs_lookup batch_size status_logs
      in if all_turnover_data = []
         then \<lparr>columns = [''month'', ''employerId'', ''new_hires'',
                            ''avg_tenure_days'', ''turnover_rate''],
               rows = []\<rparr>
         else
           let combined_tenure = concat all_turnover_data
           in \<lparr>columns = [''month'', ''employerId'', ''new_hires'',
                           ''avg_tenure_days'', ''turnover_rate''],
               rows = map turnover_agg (group_by tenure_key combined_tenure)\<rparr>)"

definition calculate_turnover_rates :: "(int \<rightharpoonup> int) \<Rightarrow> status_row list \<Rightarrow> turnover_row data_frame" where
  "calculate_turnover_rates jobs_lookup status_logs =
     turnover_batched jobs_lookup batch_size_default status_logs"

section \<open>Loading the raw data\<close>

text \<open>
  A row of a status log file as \<open>scan_csv\<close> reads it under \<open>schema_overrides\<close>: every
  column is text, and a field with no value is null.
\<close>

record raw_row =
  raw_timestamp :: "string option"
  raw_currentLocation :: "string option"
  raw_participantId :: "string option"
  raw_currentMode :: "string option"
  raw_hungerStatus :: "string option"
  raw_sleepStatus :: "string option"
  raw_apartmentId :: "string option"
  raw_availableBalance :: "string option"
  raw_jobId :: "string option"
  raw_financialStatus :: "string option"
  raw_dailyFoodBudget :: "string option"
  raw_weeklyExtraBudget :: "string option"

text \<open>
  The three conversions of the library that the loader calls, all of them non-strict
  (a text that does not convert becomes null): \<open>str.to_datetime\<close> with the format
  \<open>%Y-%m-%dT%H:%M:%SZ\<close>, \<open>cast(pl.Int64)\<close> and \<open>cast(pl.Float64)\<close>. They are
  arguments of the loader.
\<close>

record casts =
  to_datetime :: "string \<Rightarrow> int option"
  cast_int64 :: "string \<Rightarrow> int option"
  cast_float64 :: "string \<Rightarrow> rat option"

text \<open>The list given to \<open>is_in\<close> for \<open>apartmentId\<close> and \<open>jobId\<close>.\<close>

definition absent_markers :: "string option list" where
  "absent_markers = [Some [], Some ''null'', Some ''None'', None]"

text \<open>
  \<open>pl.when(col.is_in(["", "null", "None", None])).then(None)
      .otherwise(col.cast(pl.Int64, strict=False))\<close>
\<close>

definition normalize_id :: "(string \<Rightarrow> int option) \<Rightarrow> string option \<Rightarrow> int option" where
  "normalize_id cast v = (if v \<in> set absent_markers then None else Option.bind v cast)"

definition normalize_row :: "casts \<Rightarrow> raw_row \<Rightarrow> status_row" where
  "normalize_row c r =
     \<lparr>timestamp = Option.bind (raw_timestamp r) (to_datetime c),
      currentLocation = raw_currentLocation r,
      participantId = Option.bind (raw_participantId r) (cast_int64 c),
      currentMode = raw_currentMode r,
      hungerStatus = raw_hungerStatus r,
      sleepStatus = raw_sleepStatus r,
      apartmentId = normalize_id (cast_int64 c) (raw_apartmentId r),
      availableBalance = Option.bind (raw_availableBalance r) (cast_float64 c),
      jobId = normalize_id (cast_int64 c) (raw_jobId r),
      financialStatus = raw_financialStatus r,
      dailyFoodBudget = Option.bind (raw_dailyFoodBudget r) (cast_float64 c),
      weeklyExtraBudget = Option.bind (raw_weeklyExtraBudget r) (cast_float64 c)\<rparr>"

text \<open>
  A model of the integer conversion, for statements that need a concrete one: an optional
  sign, then one or more decimal digits, the value within 64 bits; anything else is
  null. \<open>int_text\<close> is the decimal text of an integer, as a CSV writer prints it.
\<close>

fun position_in :: "'a list \<Rightarrow> 'a \<Rightarrow> nat option" where
  "position_in [] x = None"
| "position_in (y # ys) x = (if x = y then Some 0 else map_option Suc (position_in ys x))"

definition digit_value :: "char \<Rightarrow> nat option" where
  "digit_value c = position_in ''0123456789'' c"

fun parse_digits :: "nat \<Rightarrow> string \<Rightarrow> nat option" where
  "parse_digits acc [] = Some acc"
| "parse_digits acc (c # cs) =
     (case digit_value c of None \<Rightarrow> None | Some d \<Rightarrow> parse_digits (10 * acc + d) cs)"

definition parse_nat :: "string \<Rightarrow> nat option" where
  "parse_nat s = (if s = [] then None else parse_digits 0 s)"

definition in_int64 :: "int \<Rightarrow> bool" where
  "in_int64 i = (- (2 ^ 63) \<le> i \<and> i < 2 ^ 63)"

definition checked_int64 :: "int \<Rightarrow> int option" where
  "checked_int64 i = (if in_int64 i then Some i else None)"

definition int64_of_string :: "string \<Rightarrow> int option" where
  "int64_of_string s =
     (case s of
        [] \<Rightarrow> None
      | c # cs \<Rightarrow>
          if c = CHR ''-'' then Option.bind (parse_nat cs) (\<lambda>n. checked_int64 (- int n))
          else if c = CHR ''+'' then Option.bind (parse_nat cs) (\<lambda>n. checked_int64 (int n))
          else Option.bind (parse_nat s) (\<lambda>n. checked_int64 (int n)))"

fun nat_text :: "nat \<Rightarrow> string" where
  "nat_text n =
     (if n < 10 then [digit_char (int n)]
      else nat_text (n div 10) @ [digit_char (int (n mod 10))])"

declare nat_text.simps [simp del]

definition int_text :: "int \<Rightarrow> string" where
  "int_text i = (if i < 0 then CHR ''-'' # nat_text (nat (- i)) else nat_text (nat i))"

text \<open>
  The input directory. For every file that exists, the model holds what the library's CSV
  reader makes of it: the table it returns, or the error it raises on a file it cannot
  read (\<open>NoDataError\<close> on an empty file, \<open>ComputeError\<close> on a malformed one). A file
  that holds only its header line is a table without lines. \<open>activity_logs\<close> is the
  listing of \<open>Datasets/Activity Logs\<close>, or \<open>None\<close> when there is no such directory
  (\<open>Path.glob\<close> then yields nothing); \<open>journals\<close> and \<open>attributes\<close> are the files
  of \<open>Datasets/Journals\<close> and \<open>Datasets/Attributes\<close> by name. A table other than the
  status log is kept as its header and its lines.
\<close>

type_synonym csv_table = "string list \<times> string list list"

datatype py_error =
  FileNotFoundError string | NoDataError string | ComputeError string | Exception string

record file_system =
  activity_logs :: "(string \<times> (py_error + raw_row list)) list option"
  journals :: "string \<rightharpoonup> py_error + csv_table"
  attributes :: "string \<rightharpoonup> py_error + csv_table"

text \<open>Raising inside a sequence of statements: the first error ends the sequence.\<close>

definition and_then :: "py_error + 'a \<Rightarrow> ('a \<Rightarrow> py_error + 'b) \<Rightarrow> py_error + 'b" where
  "and_then x f = (case x of Inl e \<Rightarrow> Inl e | Inr v \<Rightarrow> f v)"

text \<open>The glob pattern \<open>ParticipantStatusLogs*.csv\<close>.\<close>

definition is_status_log :: "string \<Rightarrow> bool" where
  "is_status_log name =
     (prefix ''ParticipantStatusLogs'' name \<and> suffix ''.csv'' name
      \<and> length ''ParticipantStatusLogs'' + length ''.csv'' \<le> length name)"

definition glob_status_logs :: "file_system \<Rightarrow> (string \<times> (py_error + raw_row list)) list" where
  "glob_status_logs fs =
     filter (\<lambda>f. is_status_log (fst f))
       (case activity_logs fs of None \<Rightarrow> [] | Some listing \<Rightarrow> listing)"

text \<open>
  \<open>pl.concat(dfs, how="vertical_relaxed").collect()\<close> over the scanned files: the rows
  of all files in order, or the error of a file that cannot be read (the first such file,
  in the model).
\<close>

fun collect_frames :: "(py_error + 'a list) list \<Rightarrow> py_error + 'a list" where
  "collect_frames [] = Inr []"
| "collect_frames (Inl e # dfs) = Inl e"
| "collect_frames (Inr df # dfs) =
     (case collect_frames dfs of Inl e \<Rightarrow> Inl e | Inr combined \<Rightarrow> Inr (df @ combined))"

definition load_participant_status_logs :: "casts \<Rightarrow> file_system \<Rightarrow> py_error + status_row list" where
  "load_participant_status_logs c fs =
     (let log_files = glob_status_logs fs
      in if log_files = []
         then Inl (FileNotFoundError ''No participant status logs found'')
         else and_then (collect_frames (map snd log_files))
                (\<lambda>combined_df. Inr (map (normalize_row c) combined_df)))"

text \<open>
  \<open>pl.read_csv(file_path)\<close> raises \<open>FileNotFoundError\<close> when the file does not exist,
  and the reader's own error when it cannot read the file.
\<close>

definition read_csv :: "(string \<rightharpoonup> py_error + csv_table) \<Rightarrow> string \<Rightarrow> py_error + csv_table" where
  "read_csv dir name =
     (case dir name of None \<Rightarrow> Inl (FileNotFoundError name) | Some outcome \<Rightarrow> outcome)"

text \<open>
  \<open>load_attributes_data\<close>, for one entry of \<open>attribute_files\<close>: a file that exists is read
  with \<open>pl.read_csv\<close>; one that does not exist is logged as a warning and replaced by
  \<open>pl.DataFrame()\<close>, the frame without columns.
\<close>

definition empty_frame :: csv_table where
  "empty_frame = ([], [])"

definition load_attribute :: "file_system \<Rightarrow> string \<Rightarrow> py_error + csv_table" where
  "load_attribute fs name =
     (case attributes fs name of None \<Rightarrow> Inr empty_frame | Some outcome \<Rightarrow> outcome)"

record raw_data =
  participant_status_logs :: "status_row list"
  financial_journal :: csv_table
  checkin_journal :: csv_table
  travel_journal :: csv_table
  social_network :: csv_table
  participants :: csv_table
  jobs :: csv_table
  employers :: csv_table
  apartments :: csv_table
  buildings :: csv_table
  restaurants :: csv_table
  pubs :: csv_table
  schools :: csv_table

text \<open>
  \<open>load_all_data\<close> loads the status logs, the four journals and then the attribute files
  in the order of the dictionary \<open>attribute_files\<close>.
\<close>

definition load_all_data :: "casts \<Rightarrow> file_system \<Rightarrow> py_error + raw_data" where
  "load_all_data c fs =
     and_then (load_participant_status_logs c fs) (\<lambda>logs_df.
     and_then (read_csv (journals fs) ''FinancialJournal.csv'') (\<lambda>financial_df.
     and_then (read_csv (journals fs) ''CheckinJournal.csv'') (\<lambda>checkin_df.
     and_then (read_csv (journals fs) ''TravelJournal.csv'') (\<lambda>travel_df.
     and_then (read_csv (journals fs) ''SocialNetwork.csv'') (\<lambda>social_df.
     and_then (load_attribute fs ''Participants.csv'') (\<lambda>participants_df.
     and_then (load_attribute fs ''Jobs.csv'') (\<lambda>jobs_df.
     and_then (load_attribute fs ''Employers.csv'') (\<lambda>employers_df.
     and_then (load_attribute fs ''Apartments.csv'') (\<lambda>apartments_df.
     and_then (load_attribute fs ''Buildings.csv'') (\<lambda>buildings_df.
     and_then (load_attribute fs ''Restaurants.csv'') (\<lambda>restaurants_df.
     and_then (load_attribute fs ''Pubs.csv'') (\<lambda>pubs_df.
     and_then (load_attribute fs ''Schools.csv'') (\<lambda>schools_df.
       Inr \<lparr>participant_status_logs = logs_df,
            financial_journal = financial_df,
            checkin_journal = checkin_df,
            travel_journal = travel_df,
            social_network = social_df,
            participants = participants_df,
            jobs = jobs_df,
            employers = employers_df,
            apartments = apartments_df,
            buildings = buildings_df,
            restaurants = restaurants_df,
            pubs = pubs_df,
            schools = schools_df\<rparr>)))))))))))))"

text \<open>
  \<open>main\<close>: everything runs inside one \<open>try\<close>; any exception is logged and ends the
  process with \<open>sys.exit(1)\<close>, and a run that raises nothing ends with status 0. Opening
  the database (before the load) and the processing and saving of the three analyses
  (after it) belong to collaborators and are arguments: \<open>db_open\<close> is the outcome of
  opening the database, \<open>process_and_save\<close> the outcome of everything that follows the
  load. \<open>stages_entered\<close> lists the parts of the \<open>try\<close> block that a run enters; the
  last of them is the one that raised, if any did.
\<close>

datatype stage = Open_database | Load_raw_data | Process_and_save

definition stages_entered :: "(py_error + unit) \<Rightarrow> casts \<Rightarrow> file_system \<Rightarrow> stage list" where
  "stages_entered db_open c fs =
     (case db_open of Inl e \<Rightarrow> [Open_database] | Inr u \<Rightarrow>
      case load_all_data c fs of Inl e \<Rightarrow> [Open_database, Load_raw_data] | Inr raw \<Rightarrow>
        [Open_database, Load_raw_data, Process_and_save])"

definition main ::
  "(py_error + unit) \<Rightarrow> (raw_data \<Rightarrow> py_error + unit) \<Rightarrow> casts \<Rightarrow> file_system \<Rightarrow> nat" where
  "main db_open process_and_save c fs =
     (case db_open of Inl e \<Rightarrow> 1 | Inr u \<Rightarrow>
      case load_all_data c fs of Inl e \<Rightarrow> 1 | Inr raw \<Rightarrow>
      case process_and_save raw of Inl e \<Rightarrow> 1 | Inr u \<Rightarrow> 0)"

section \<open>Reading the results\<close>

text \<open>
  Names for what the statements below talk about. For the stability analysis: the rows
  of one batch with a given (participant, month) key; the partial rows that the batches
  holding such rows contribute for the key, in batch order; the key of a row of the
  final frame; and the rows of a batch that belong to a participant and have no
  timestamp.
\<close>

definition key_rows :: "int option \<times> string option \<Rightarrow> status_row list \<Rightarrow> status_row list" where
  "key_rows k batch_logs = filter (\<lambda>r. stability_key r = k) batch_logs"

definition partials_of_key :: "int option \<times> string option \<Rightarrow> nat \<Rightarrow> status_row list \<Rightarrow> stability_row list" where
  "partials_of_key k batch_size status_logs =
     map (\<lambda>batch_logs. stability_agg (k, key_rows k batch_logs))
       (filter (\<lambda>batch_logs. key_rows k batch_logs \<noteq> []) (batches batch_size status_logs))"

definition final_key :: "stability_final \<Rightarrow> int option \<times> string option" where
  "final_key g = (s_participantId g, s_month g)"

definition absent_timestamp_rows :: "int option \<Rightarrow> status_row list \<Rightarrow> status_row list" where
  "absent_timestamp_rows p batch_logs =
     filter (\<lambda>x. participantId x = p \<and> timestamp x = None) batch_logs"

text \<open>
  For the loader: the four journal files that \<open>load_all_data\<close> reads with \<open>read_csv\<close>;
  the attribute files with the field of \<open>RawData\<close> that each of them fills; the condition
  that a source without which the load raises \<open>FileNotFoundError\<close> is missing; and the
  condition that a file which the loader reads exists but cannot be read.
\<close>

definition journal_files :: "string list" where
  "journal_files =
     [''FinancialJournal.csv'', ''CheckinJournal.csv'', ''TravelJournal.csv'',
      ''SocialNetwork.csv'']"

definition attribute_fields :: "(string \<times> (raw_data \<Rightarrow> csv_table)) list" where
  "attribute_fields =
     [(''Participants.csv'', participants), (''Jobs.csv'', jobs), (''Employers.csv'', employers),
      (''Apartments.csv'', apartments), (''Buildings.csv'', buildings),
      (''Restaurants.csv'', restaurants), (''Pubs.csv'', pubs), (''Schools.csv'', schools)]"

definition fatal_source_missing :: "file_system \<Rightarrow> bool" where
  "fatal_source_missing fs =
     (glob_status_logs fs = [] \<or> (\<exists>name \<in> set journal_files. journals fs name = None))"

definition unreadable :: "(py_error + 'a) option \<Rightarrow> bool" where
  "unreadable file = (case file of Some (Inl e) \<Rightarrow> True | _ \<Rightarrow> False)"

definition source_unreadable :: "file_system \<Rightarrow> bool" where
  "source_unreadable fs =
     ((\<exists>f \<in> set (glob_status_logs fs). isl (snd f))
      \<or> (\<exists>name \<in> set journal_files. unreadable (journals fs name))
      \<or> (\<exists>a \<in> set attribute_fields. unreadable (attributes fs (fst a))))"

section \<open>A single pass, for comparison\<close>

text \<open>
  What the specification compares the batched analyses with. The single unchunked pass
  applies the aggregation of a batch to the whole status log and then the final step of
  the analysis; it is what the code computes when the log fits one batch (lemmas
  \<open>stability_one_batch\<close> and \<open>turnover_one_batch\<close>).
\<close>

definition stability_single_pass :: "status_row list \<Rightarrow> stability_final list" where
  "stability_single_pass status_logs = map with_stability_score (batch_stability status_logs)"

definition turnover_single_pass :: "(int \<rightharpoonup> int) \<Rightarrow> status_row list \<Rightarrow> turnover_row list" where
  "turnover_single_pass jobs_lookup status_logs =
     map turnover_agg (group_by tenure_key (batch_tenure jobs_lookup status_logs))"

text \<open>
  In the specification's words, for the rows of one (participant, month) key over the
  whole log: the mean recomputed from the total sum and the total count (of employed
  rows, and of balances), and the number of distinct job identifiers.
\<close>

definition total_employment_rate :: "int option \<times> string option \<Rightarrow> status_row list \<Rightarrow> rat" where
  "total_employment_rate k status_logs =
     of_nat (length (filter is_employed (key_rows k status_logs)))
       / of_nat (length (key_rows k status_logs))"

definition total_avg_balance :: "int option \<times> string option \<Rightarrow> status_row list \<Rightarrow> rat" where
  "total_avg_balance k status_logs =
     sum_list (drop_nulls (map availableBalance (key_rows k status_logs)))
       / of_nat (length (drop_nulls (map availableBalance (key_rows k status_logs))))"

definition distinct_job_identifiers :: "int option \<times> string option \<Rightarrow> status_row list \<Rightarrow> nat" where
  "distinct_job_identifiers k status_logs =
     length (remdups (drop_nulls (map jobId (key_rows k status_logs))))"

section \<open>Sample inputs\<close>

text \<open>
  Concrete inputs for the instances below. Participant 1 holds job 7 with employer 3;
  1646092800 is 2022-03-01T00:00:00Z and 1646265600 is two days later.
\<close>

definition employed_row :: status_row where
  "employed_row =
     \<lparr>timestamp = Some 1646092800, currentLocation = None, participantId = Some 1,
      currentMode = Some ''AtWork'', hungerStatus = None, sleepStatus = None,
      apartmentId = Some 4, availableBalance = Some 10, jobId = Some 7,
      financialStatus = Some ''Stable'', dailyFoodBudget = Some 12,
      weeklyExtraBudget = Some 50\<rparr>"

definition unemployed_row :: status_row where
  "unemployed_row = employed_row\<lparr>jobId := None, availableBalance := Some 20\<rparr>"

definition later_row :: status_row where
  "later_row = employed_row\<lparr>timestamp := Some 1646265600\<rparr>"

definition quiet_row :: status_row where
  "quiet_row =
     \<lparr>timestamp = Some 1646092800, currentLocation = None, participantId = Some 1,
      currentMode = Some ''AtHome'', hungerStatus = None, sleepStatus = None,
      apartmentId = None, availableBalance = None, jobId = Some 7,
      financialStatus = None, dailyFoodBudget = None, weeklyExtraBudget = None\<rparr>"

definition march_key :: "int option \<times> string option" where
  "march_key = (Some 1, Some ''2022-03'')"

definition example_jobs_lookup :: "int \<rightharpoonup> int" where
  "example_jobs_lookup = [7 \<mapsto> 3]"

text \<open>
  An input directory with two status log files and an empty file that does not match the
  pattern, the four journals, and every attribute file but \<open>Schools.csv\<close>; every file
  that the loader reads has its header and one line. The second and third raw rows
  carry a timestamp in another format.
\<close>

definition example_casts :: casts where
  "example_casts =
     \<lparr>to_datetime = (\<lambda>s. if s = ''2022-03-01T00:00:00Z'' then Some 1646092800 else None),
      cast_int64 = int64_of_string,
      cast_float64 = (\<lambda>s. if s = ''10.5'' then Some (21 / 2) else None)\<rparr>"

definition example_raw_row :: raw_row where
  "example_raw_row =
     \<lparr>raw_timestamp = Some ''2022-03-01T00:00:00Z'', raw_currentLocation = None,
      raw_participantId = Some ''1'', raw_currentMode = Some ''AtHome'',
      raw_hungerStatus = None, raw_sleepStatus = None, raw_apartmentId = Some ''null'',
      raw_availableBalance = Some ''10.5'', raw_jobId = Some ''7'',
      raw_financialStatus = None, raw_dailyFoodBudget = None,
      raw_weeklyExtraBudget = None\<rparr>"

definition undated_raw_row :: raw_row where
  "undated_raw_row = example_raw_row\<lparr>raw_timestamp := Some ''01/03/2022 00:00''\<rparr>"

definition financial_table :: csv_table where
  "financial_table =
     ([''participantId'', ''timestamp'', ''category'', ''amount''],
      [[''1'', ''2022-03-01T00:00:00Z'', ''Wage'', ''120.5'']])"

definition checkin_table :: csv_table where
  "checkin_table =
     ([''participantId'', ''timestamp'', ''venueId'', ''venueType''],
      [[''1'', ''2022-03-01T00:00:00Z'', ''445'', ''Restaurant'']])"

definition travel_table :: csv_table where
  "travel_table =
     ([''participantId'', ''travelStartTime'', ''travelStartLocationId'', ''travelEndTime'',
       ''travelEndLocationId'', ''purpose'', ''checkInTime'', ''checkOutTime'',
       ''startingBalance'', ''endingBalance''],
      [[''1'', ''2022-03-01T07:00:00Z'', ''4'', ''2022-03-01T07:20:00Z'', ''445'',
        ''Eating'', ''2022-03-01T07:20:00Z'', ''2022-03-01T08:00:00Z'', ''10.5'', ''6.5'']])"

definition social_table :: csv_table where
  "social_table =
     ([''timestamp'', ''participantIdFrom'', ''participantIdTo''],
      [[''2022-03-01T00:00:00Z'', ''1'', ''2'']])"

definition example_journals :: "string \<rightharpoonup> py_error + csv_table" where
  "example_journals =
     [''FinancialJournal.csv'' \<mapsto> Inr financial_table,
      ''CheckinJournal.csv'' \<mapsto> Inr checkin_table,
      ''TravelJournal.csv'' \<mapsto> Inr travel_table,
      ''SocialNetwork.csv'' \<mapsto> Inr social_table]"

definition participants_table :: csv_table where
  "participants_table =
     ([''participantId'', ''householdSize'', ''haveKids'', ''age'', ''educationLevel'',
       ''interestGroup'', ''joviality''],
      [[''1'', ''1'', ''FALSE'', ''25'', ''Bachelors'', ''B'', ''0.5'']])"

definition jobs_table :: csv_table where
  "jobs_table =
     ([''jobId'', ''employerId'', ''hourlyRate'', ''startTime'', ''endTime'', ''daysToWork'',
       ''educationRequirement''],
      [[''7'', ''3'', ''20'', ''8:00:00 AM'', ''4:00:00 PM'', ''[Monday]'', ''Bachelors'']])"

definition employers_table :: csv_table where
  "employers_table =
     ([''employerId'', ''location'', ''buildingId''], [[''3'', ''POINT (0 0)'', ''9'']])"

definition apartments_table :: csv_table where
  "apartments_table =
     ([''apartmentId'', ''rentalCost'', ''maxOccupancy'', ''numberOfRooms'', ''location'',
       ''buildingId''],
      [[''4'', ''700'', ''2'', ''2'', ''POINT (1 1)'', ''8'']])"

definition buildings_table :: csv_table where
  "buildings_table =
     ([''buildingId'', ''location'', ''buildingType'', ''maxOccupancy'', ''units''],
      [[''8'', ''POLYGON ((0 0, 0 1, 1 1, 0 0))'', ''Residental'', ''2'', ''[4]'']])"

definition restaurants_table :: csv_table where
  "restaurants_table =
     ([''restaurantId'', ''foodCost'', ''maxOccupancy'', ''location'', ''buildingId''],
      [[''445'', ''4'', ''50'', ''POINT (2 2)'', ''10'']])"

definition pubs_table :: csv_table where
  "pubs_table =
     ([''pubId'', ''hourlyCost'', ''maxOccupancy'', ''location'', ''buildingId''],
      [[''442'', ''8'', ''60'', ''POINT (3 3)'', ''11'']])"

definition example_attributes :: "string \<rightharpoonup> py_error + csv_table" where
  "example_attributes =
     [''Participants.csv'' \<mapsto> Inr participants_table, ''Jobs.csv'' \<mapsto> Inr jobs_table,
      ''Employers.csv'' \<mapsto> Inr employers_table, ''Apartments.csv'' \<mapsto> Inr apartments_table,
      ''Buildings.csv'' \<mapsto> Inr buildings_table, ''Restaurants.csv'' \<mapsto> Inr restaurants_table,
      ''Pubs.csv'' \<mapsto> Inr pubs_table]"

definition example_fs :: file_system where
  "example_fs =
     \<lparr>activity_logs =
        Some [(''ParticipantStatusLogs1.csv'', Inr [example_raw_row, undated_raw_row]),
              (''Untitled.csv'', Inl (NoDataError ''empty CSV'')),
              (''ParticipantStatusLogs2.csv'', Inr [undated_raw_row])],
      journals = example_journals,
      attributes = example_attributes\<rparr>"

definition example_logs :: "status_row list" where
  "example_logs =
     map (normalize_row example_casts) [example_raw_row, undated_raw_row, undated_raw_row]"

definition example_raw_data :: raw_data where
  "example_raw_data =
     \<lparr>participant_status_logs = example_logs,
      financial_journal = financial_table,
      checkin_journal = checkin_table,
      travel_journal = travel_table,
      social_network = social_table,
      participants = participants_table,
      jobs = jobs_table,
      employers = employers_table,
      apartments = apartments_table,
      buildings = buildings_table,
      restaurants = restaurants_table,
      pubs = pubs_table,
      schools = empty_frame\<rparr>"

text \<open>
  The same directory with no \<open>Activity Logs\<close> directory; and with one status log file of
  5,000,001 rows, all of participant 1 in job 7 and all with a timestamp in another
  format, which the loader turns into \<open>undated_row\<close>.
\<close>

definition no_logs_fs :: file_system where
  "no_logs_fs = example_fs\<lparr>activity_logs := None\<rparr>"

definition undated_fs :: file_system where
  "undated_fs =
     example_fs\<lparr>activity_logs :=
       Some [(''ParticipantStatusLogs1.csv'',
              Inr (replicate 5000000 undated_raw_row @ [undated_raw_row]))]\<rparr>"

definition undated_row :: status_row where
  "undated_row =
     \<lparr>timestamp = None, currentLocation = None, participantId = Some 1,
      currentMode = Some ''AtHome'', hungerStatus = None, sleepStatus = None,
      apartmentId = None, availableBalance = Some (21 / 2), jobId = Some 7,
      financialStatus = None, dailyFoodBudget = None, weeklyExtraBudget = None\<rparr>"

section \<open>Properties of the batch loop\<close>

lemma range_rows_pair: "range_rows (a, b) = [a ..< b]"
  by (simp add: range_rows_def)

lemma batch_ranges_from_cover:
  "0 < bs \<Longrightarrow> concat (map range_rows (batch_ranges_from s n bs)) = [s ..< n]"
proof (induction s n bs rule: batch_ranges_from.induct)
  case (1 s n bs)
  show ?case
  proof (cases "s < n")
    case True
    with "1.prems" "1.IH" have IH: "concat (map range_rows (batch_ranges_from (s + bs) n bs)) = [s + bs ..< n]"
      by simp
    show ?thesis
    proof (cases "s + bs \<le> n")
      case le: True
      have "[s ..< n] = [s ..< s + bs] @ [s + bs ..< n]"
        using le by (metis le_add1 upt_add_eq_append le_Suc_ex)
      with True "1.prems" IH le show ?thesis
        by (simp add: batch_ranges_from.simps [of s n bs] range_rows_pair min_def)
    next
      case gt: False
      then have "batch_ranges_from (s + bs) n bs = []"
        by (simp add: batch_ranges_from.simps [of "s + bs" n bs])
      with True "1.prems" gt show ?thesis
        by (simp add: batch_ranges_from.simps [of s n bs] range_rows_pair min_def)
    qed
  next
    case False
    then show ?thesis
      by (simp add: batch_ranges_from.simps [of s n bs])
  qed
qed

lemma batch_ranges_from_shape:
  "0 < bs \<Longrightarrow> r \<in> set (batch_ranges_from s n bs) \<Longrightarrow>
     fst r < snd r \<and> snd r \<le> n \<and> snd r - fst r \<le> bs \<and> (snd r < n \<longrightarrow> snd r - fst r = bs)"
proof (induction s n bs rule: batch_ranges_from.induct)
  case (1 s n bs)
  show ?case
  proof (cases "s < n")
    case True
    with "1.prems" have "r = (s, min (s + bs) n) \<or> r \<in> set (batch_ranges_from (s + bs) n bs)"
      by (simp add: batch_ranges_from.simps [of s n bs])
    then show ?thesis
    proof
      assume "r = (s, min (s + bs) n)"
      with True "1.prems"(1) show ?thesis by (auto simp: min_def)
    next
      assume "r \<in> set (batch_ranges_from (s + bs) n bs)"
      with True "1.prems"(1) "1.IH" show ?thesis by simp
    qed
  next
    case False
    with "1.prems" show ?thesis
      by (simp add: batch_ranges_from.simps [of s n bs])
  qed
qed

lemma batch_ranges_butlast_full:
  "0 < bs \<Longrightarrow> r \<in> set (butlast (batch_ranges_from s n bs)) \<Longrightarrow> snd r - fst r = bs"
proof (induction s n bs rule: batch_ranges_from.induct)
  case (1 s n bs)
  show ?case
  proof (cases "s < n")
    case True
    show ?thesis
    proof (cases "batch_ranges_from (s + bs) n bs = []")
      case Nil: True
      with True "1.prems" show ?thesis
        by (simp add: batch_ranges_from.simps [of s n bs])
    next
      case Cons: False
      then have lt: "s + bs < n"
        by (auto simp: batch_ranges_from.simps [of "s + bs" n bs] split: if_splits)
      from True "1.prems" Cons
      have "r = (s, min (s + bs) n) \<or> r \<in> set (butlast (batch_ranges_from (s + bs) n bs))"
        by (simp add: batch_ranges_from.simps [of s n bs])
      then show ?thesis
      proof
        assume "r = (s, min (s + bs) n)"
        with lt show ?thesis by (simp add: min_def)
      next
        assume "r \<in> set (butlast (batch_ranges_from (s + bs) n bs))"
        with True "1.prems"(1) "1.IH" show ?thesis by simp
      qed
    qed
  next
    case False
    with "1.prems" show ?thesis
      by (simp add: batch_ranges_from.simps [of s n bs])
  qed
qed

text \<open>
  C5. For every row count and every positive batch size, the half-open ranges of the
  batch loop, read in order, enumerate the rows \<open>0, 1, ..., total_records - 1\<close> exactly
  once and in ascending order (so they are disjoint and leave no gap); every range is
  non-empty and at most \<open>batch_size\<close> long, every range but the last is exactly
  \<open>batch_size\<close> long; and there is no range at all when the table is empty. The ranges
  are a function of the two inputs, so equal inputs give equal boundaries.
\<close>

theorem batch_ranges_plan:
  assumes "0 < batch_size"
  shows "concat (map range_rows (batch_ranges total_records batch_size)) = [0 ..< total_records]
       \<and> (\<forall>r \<in> set (batch_ranges total_records batch_size).
             fst r < snd r \<and> snd r \<le> total_records \<and> snd r - fst r \<le> batch_size)
       \<and> (\<forall>r \<in> set (butlast (batch_ranges total_records batch_size)).
             snd r - fst r = batch_size)
       \<and> (total_records = 0 \<longrightarrow> batch_ranges total_records batch_size = [])"
proof -
  have cover: "concat (map range_rows (batch_ranges total_records batch_size)) = [0 ..< total_records]"
    using assms by (simp add: batch_ranges_def batch_ranges_from_cover)
  have shape: "\<forall>r \<in> set (batch_ranges total_records batch_size).
             fst r < snd r \<and> snd r \<le> total_records \<and> snd r - fst r \<le> batch_size"
    using assms batch_ranges_from_shape [of batch_size _ 0 total_records]
    by (simp add: batch_ranges_def)
  have full: "\<forall>r \<in> set (butlast (batch_ranges total_records batch_size)). snd r - fst r = batch_size"
    using assms batch_ranges_butlast_full [of batch_size _ 0 total_records]
    by (simp add: batch_ranges_def)
  have empty: "total_records = 0 \<longrightarrow> batch_ranges total_records batch_size = []"
    by (simp add: batch_ranges_def batch_ranges_from.simps [of 0 0 batch_size])
  from cover shape full empty show ?thesis by blast
qed

theorem batch_ranges_plan_witness:
  "batch_ranges 5 2 = [(0, 2), (2, 4), (4, 5)]
   \<and> concat (map range_rows (batch_ranges 5 2)) = [0 ..< 5]
   \<and> 0 < (2::nat)"
proof -
  have ev: "batch_ranges 5 2 = [(0, 2), (2, 4), (4, 5)]"
    by (simp add: batch_ranges_def batch_ranges_from.simps)
  have pos: "0 < (2::nat)" by simp
  from batch_ranges_plan [OF pos, of 5] ev pos show ?thesis by simp
qed

section \<open>Grouping, batching and means\<close>

lemma filter_eq_distinct:
  "distinct ks \<Longrightarrow> filter (\<lambda>x. x = k) ks = (if k \<in> set ks then [k] else [])"
  by (induction ks) auto

lemma group_by_nonempty: "p \<in> set (group_by key xs) \<Longrightarrow> snd p \<noteq> []"
  by (auto simp: group_by_def filter_empty_conv)

lemma group_by_filter_key:
  assumes "\<And>p. key' (f p) = fst p"
  shows "filter (\<lambda>y. key' y = k) (map f (group_by key xs)) =
     (if k \<in> key ` set xs then [f (k, filter (\<lambda>x. key x = k) xs)] else [])"
proof -
  have "filter (\<lambda>y. key' y = k) (map f (group_by key xs))
        = map f (filter (\<lambda>p. fst p = k) (group_by key xs))"
    by (simp add: filter_map o_def assms)
  also have "filter (\<lambda>p. fst p = k) (group_by key xs)
        = map (\<lambda>k. (k, filter (\<lambda>x. key x = k) xs)) (filter (\<lambda>x. x = k) (remdups (map key xs)))"
    by (simp add: group_by_def filter_map o_def)
  also have "filter (\<lambda>x. x = k) (remdups (map key xs)) = (if k \<in> key ` set xs then [k] else [])"
    by (simp add: filter_eq_distinct)
  finally show ?thesis by simp
qed

lemma slice_nth: "e \<le> length xs \<Longrightarrow> s \<le> e \<Longrightarrow> slice s (e - s) xs = map ((!) xs) [s ..< e]"
  by (auto simp: slice_def list_eq_iff_nth_eq)

lemma batches_nth:
  assumes "0 < bs"
  shows "batches bs xs = map (\<lambda>r. map ((!) xs) (range_rows r)) (batch_ranges (length xs) bs)"
proof -
  have "\<And>r. r \<in> set (batch_ranges (length xs) bs) \<Longrightarrow>
      (case r of (s, e) \<Rightarrow> slice s (e - s) xs) = map ((!) xs) (range_rows r)"
  proof -
    fix r assume "r \<in> set (batch_ranges (length xs) bs)"
    with assms batch_ranges_from_shape [of bs r 0 "length xs"]
    have "fst r < snd r \<and> snd r \<le> length xs" by (simp add: batch_ranges_def)
    then show "(case r of (s, e) \<Rightarrow> slice s (e - s) xs) = map ((!) xs) (range_rows r)"
      by (cases r) (simp add: slice_nth range_rows_pair)
  qed
  then show ?thesis by (simp add: batches_def)
qed

lemma concat_batches: "0 < bs \<Longrightarrow> concat (batches bs xs) = xs"
proof -
  assume pos: "0 < bs"
  have "concat (batches bs xs) = map ((!) xs) (concat (map range_rows (batch_ranges (length xs) bs)))"
    by (simp add: batches_nth [OF pos] map_concat o_def)
  also have "\<dots> = map ((!) xs) [0 ..< length xs]"
    using pos by (simp add: batch_ranges_def batch_ranges_from_cover)
  finally show ?thesis by (simp add: map_nth)
qed

lemma concat_filter_nonempty: "concat (filter (\<lambda>x. 0 < length x) xss) = concat xss"
  by (induction xss) auto

lemma drop_nulls_empty: "drop_nulls xs = [] \<longleftrightarrow> (\<forall>x \<in> set xs. x = None)"
  by (induction xs rule: drop_nulls.induct) auto

lemma mean_None: "mean xs = None \<longleftrightarrow> (\<forall>x \<in> set xs. x = None)"
  by (simp add: mean_def Let_def drop_nulls_empty)

lemma bool_mean_None: "bool_mean bs = None \<longleftrightarrow> bs = []"
  by (auto simp: bool_mean_def mean_None)

lemma batch_stability_eq:
  "batch_stability b = map stability_agg (group_by stability_key b)"
proof -
  have "\<forall>g \<in> set (group_by stability_key b). s_employment_rate (stability_agg g) \<noteq> None"
    using group_by_nonempty [of _ stability_key b]
    by (auto simp: stability_agg_def bool_mean_None)
  then show ?thesis by (simp add: batch_stability_def)
qed

section \<open>The stability table, key by key\<close>

text \<open>
  The central fact (\<open>stability_rows_of_key\<close>): for a positive batch size the final
  stability table has exactly one row for every key of the status log and none for any
  other key, and that row is the re-aggregation of the partial rows of the key.
\<close>

lemma partial_key_agg: "partial_key (stability_agg p) = fst p"
  by (simp add: partial_key_def stability_agg_def)

lemma partial_key_reagg: "partial_key (stability_reagg p) = fst p"
  by (simp add: partial_key_def stability_reagg_def)

lemma final_key_score: "final_key (with_stability_score g) = partial_key g"
  by (simp add: final_key_def partial_key_def with_stability_score_def)

lemma key_rows_nonempty: "key_rows k b \<noteq> [] \<longleftrightarrow> k \<in> stability_key ` set b"
  by (auto simp: key_rows_def filter_empty_conv)

lemma filter_batch_stability:
  "filter (\<lambda>g. partial_key g = k) (batch_stability b) =
     (if key_rows k b \<noteq> [] then [stability_agg (k, key_rows k b)] else [])"
proof -
  have "filter (\<lambda>g. partial_key g = k) (map stability_agg (group_by stability_key b)) =
     (if k \<in> stability_key ` set b
      then [stability_agg (k, filter (\<lambda>r. stability_key r = k) b)] else [])"
    by (rule group_by_filter_key) (rule partial_key_agg)
  moreover have "filter (\<lambda>r. stability_key r = k) b = key_rows k b"
    by (simp add: key_rows_def)
  ultimately show ?thesis
    by (simp only: batch_stability_eq key_rows_nonempty)
qed

lemma concat_map_if_singleton:
  "concat (map (\<lambda>x. if P x then [f x] else []) xs) = map f (filter P xs)"
  by (induction xs) auto

lemma filter_combined_stability:
  "filter (\<lambda>g. partial_key g = k) (concat (all_stability_data bs logs)) = partials_of_key k bs logs"
proof -
  have "concat (all_stability_data bs logs) = concat (map batch_stability (batches bs logs))"
    by (simp add: all_stability_data_def concat_filter_nonempty del: length_greater_0_conv)
  then show ?thesis
    by (simp add: filter_concat o_def filter_batch_stability partials_of_key_def
        concat_map_if_singleton)
qed

lemma batch_stability_rate: "g \<in> set (batch_stability b) \<Longrightarrow> s_employment_rate g \<noteq> None"
  by (simp add: batch_stability_def)

lemma combined_stability_rate:
  "g \<in> set (concat (all_stability_data bs logs)) \<Longrightarrow> s_employment_rate g \<noteq> None"
  by (auto simp: all_stability_data_def dest: batch_stability_rate)

lemma stability_rows_eq:
  "rows (stability_batched bs logs) =
     map with_stability_score
       (map stability_reagg (group_by partial_key (concat (all_stability_data bs logs))))"
proof -
  let ?combined = "concat (all_stability_data bs logs)"
  have keep: "\<forall>p \<in> set (group_by partial_key ?combined). s_employment_rate (stability_reagg p) \<noteq> None"
  proof
    fix p assume p: "p \<in> set (group_by partial_key ?combined)"
    then have "snd p \<noteq> []" by (rule group_by_nonempty)
    then obtain g where g: "g \<in> set (snd p)" by (cases "snd p") auto
    with p have "g \<in> set ?combined" by (auto simp: group_by_def)
    then have "s_employment_rate g \<noteq> None" by (rule combined_stability_rate)
    with g show "s_employment_rate (stability_reagg p) \<noteq> None"
      by (auto simp: stability_reagg_def mean_None)
  qed
  have "filter (\<lambda>g. s_employment_rate g \<noteq> None) (map stability_reagg (group_by partial_key ?combined))
        = map stability_reagg (group_by partial_key ?combined)"
    using keep by (simp add: filter_id_conv)
  moreover have "all_stability_data bs logs = [] \<Longrightarrow> group_by partial_key ?combined = []"
    by (simp add: group_by_def)
  ultimately show ?thesis
    by (simp add: stability_batched_def Let_def)
qed

lemma combined_stability_keys:
  assumes "0 < bs"
  shows "partial_key ` set (concat (all_stability_data bs logs)) = stability_key ` set logs"
proof -
  have "concat (all_stability_data bs logs) = concat (map batch_stability (batches bs logs))"
    by (simp add: all_stability_data_def concat_filter_nonempty del: length_greater_0_conv)
  then have "partial_key ` set (concat (all_stability_data bs logs))
      = (\<Union>b \<in> set (batches bs logs). partial_key ` set (batch_stability b))"
    by auto
  also have "\<dots> = (\<Union>b \<in> set (batches bs logs). stability_key ` set b)"
    by (simp add: batch_stability_eq group_by_def image_image partial_key_agg)
  also have "\<dots> = stability_key ` set (concat (batches bs logs))"
    by auto
  finally show ?thesis using assms by (simp add: concat_batches)
qed

lemma stability_rows_of_key:
  assumes "0 < bs"
  shows "filter (\<lambda>g. final_key g = k) (rows (stability_batched bs logs)) =
     (if k \<in> stability_key ` set logs
      then [with_stability_score (stability_reagg (k, partials_of_key k bs logs))] else [])"
proof -
  let ?combined = "concat (all_stability_data bs logs)"
  have "filter (\<lambda>g. final_key g = k) (rows (stability_batched bs logs))
      = map with_stability_score
          (filter (\<lambda>g. partial_key g = k) (map stability_reagg (group_by partial_key ?combined)))"
    by (simp add: stability_rows_eq filter_map o_def final_key_score)
  also have "filter (\<lambda>g. partial_key g = k) (map stability_reagg (group_by partial_key ?combined))
      = (if k \<in> partial_key ` set ?combined
         then [stability_reagg (k, filter (\<lambda>g. partial_key g = k) ?combined)] else [])"
    by (rule group_by_filter_key) (rule partial_key_reagg)
  finally have "filter (\<lambda>g. final_key g = k) (rows (stability_batched bs logs))
      = map with_stability_score
         (if k \<in> partial_key ` set ?combined
          then [stability_reagg (k, filter (\<lambda>g. partial_key g = k) ?combined)] else [])" .
  then show ?thesis
    unfolding combined_stability_keys [OF assms] filter_combined_stability by simp
qed

section \<open>A status log that fits one batch\<close>

lemma batch_ranges_one: "0 < n \<Longrightarrow> n \<le> bs \<Longrightarrow> batch_ranges n bs = [(0, n)]"
  by (simp add: batch_ranges_def batch_ranges_from.simps [of 0 n bs]
      batch_ranges_from.simps [of bs n bs] min_def)

lemma batches_one: "xs \<noteq> [] \<Longrightarrow> length xs \<le> bs \<Longrightarrow> batches bs xs = [xs]"
  by (simp add: batches_def batch_ranges_one slice_def)

lemma batch_in_logs:
  assumes "0 < bs" and "b \<in> set (batches bs logs)"
  shows "set b \<subseteq> set logs"
proof -
  from assms(2) have "set b \<subseteq> set (concat (batches bs logs))" by auto
  with assms(1) show ?thesis by (simp add: concat_batches)
qed

lemma group_by_distinct_keys:
  assumes "distinct (map key ys)"
  shows "group_by key ys = map (\<lambda>y. (key y, [y])) ys"
proof -
  have "\<And>y. y \<in> set ys \<Longrightarrow> filter (\<lambda>x. key x = key y) ys = [y]"
    using assms
  proof (induction ys)
    case Nil
    then show ?case by simp
  next
    case (Cons a ys)
    then show ?case by (auto simp: filter_empty_conv image_iff)
  qed
  then show ?thesis
    using assms by (simp add: group_by_def distinct_remdups_id)
qed

lemma mean_single: "mean [x] = x"
  by (cases x) (simp_all add: mean_def)

lemma stability_reagg_single: "stability_reagg (partial_key g, [g]) = g"
  by (simp add: stability_reagg_def partial_key_def mean_single)

lemma batch_stability_distinct: "distinct (map partial_key (batch_stability b))"
  by (simp add: batch_stability_eq group_by_def o_def partial_key_agg)

lemma stability_one_batch:
  assumes "status_logs \<noteq> []" and "length status_logs \<le> batch_size"
  shows "rows (stability_batched batch_size status_logs) = stability_single_pass status_logs"
proof -
  have "concat (all_stability_data batch_size status_logs) = batch_stability status_logs"
    using assms by (simp add: all_stability_data_def batches_one)
  then show ?thesis
    by (simp add: stability_rows_eq stability_single_pass_def
        group_by_distinct_keys [OF batch_stability_distinct] o_def stability_reagg_single)
qed

section \<open>Groups without a balance\<close>

lemma key_rows_subset: "set (key_rows k b) \<subseteq> set b"
  by (auto simp: key_rows_def)

lemma key_rows_key: "x \<in> set (key_rows k b) \<Longrightarrow> stability_key x = k"
  by (simp add: key_rows_def)

lemma partials_of_key_nonempty:
  assumes "0 < bs" and "k \<in> stability_key ` set logs"
  shows "partials_of_key k bs logs \<noteq> []"
proof -
  from assms(2) obtain r where "r \<in> set logs" and "stability_key r = k" by auto
  with assms(1) have "r \<in> set (concat (batches bs logs))" by (simp add: concat_batches)
  then obtain b where "b \<in> set (batches bs logs)" and "r \<in> set b" by auto
  with \<open>stability_key r = k\<close> have "key_rows k b \<noteq> []"
    by (auto simp: key_rows_nonempty)
  with \<open>b \<in> set (batches bs logs)\<close> show ?thesis
    by (auto simp: partials_of_key_def filter_empty_conv)
qed

lemma partials_of_key_rate:
  assumes "g \<in> set (partials_of_key k bs logs)"
  shows "s_employment_rate g \<noteq> None"
proof -
  from assms obtain b where "key_rows k b \<noteq> []" and "g = stability_agg (k, key_rows k b)"
    by (auto simp: partials_of_key_def)
  moreover from this have "bool_mean (map is_employed (key_rows k b)) \<noteq> None"
    by (simp add: bool_mean_None)
  ultimately show ?thesis by (simp add: stability_agg_def)
qed

text \<open>
  C6, as the code has it. For every positive batch size: when every row of a
  (participant, month) group has an absent \<open>availableBalance\<close>, the final stability
  table still has exactly one row for that key; its \<open>avg_balance\<close> is absent and its
  \<open>employment_rate\<close> is present. The filter of the source tests \<open>employment_rate\<close>, which
  is never absent for a group with a row.
\<close>

theorem stability_absent_balance_group_kept:
  assumes "0 < batch_size" and "r \<in> set status_logs"
    and "\<forall>x \<in> set status_logs. stability_key x = stability_key r \<longrightarrow> availableBalance x = None"
  shows "\<exists>g. filter (\<lambda>g. final_key g = stability_key r)
                 (rows (stability_batched batch_size status_logs)) = [g]
             \<and> s_avg_balance g = None \<and> s_employment_rate g \<noteq> None"
proof -
  let ?k = "stability_key r"
  let ?ps = "partials_of_key ?k batch_size status_logs"
  let ?g = "with_stability_score (stability_reagg (?k, ?ps))"
  from assms(2) have mem: "?k \<in> stability_key ` set status_logs" by simp
  have row: "filter (\<lambda>g. final_key g = ?k) (rows (stability_batched batch_size status_logs)) = [?g]"
    using mem by (simp add: stability_rows_of_key [OF assms(1)])
  have "\<forall>p \<in> set ?ps. s_avg_balance p = None"
  proof
    fix p assume "p \<in> set ?ps"
    then obtain b where b: "b \<in> set (batches batch_size status_logs)"
      and p: "p = stability_agg (?k, key_rows ?k b)"
      by (auto simp: partials_of_key_def)
    have "\<forall>x \<in> set (key_rows ?k b). availableBalance x = None"
    proof
      fix x assume x: "x \<in> set (key_rows ?k b)"
      then have "x \<in> set b" using key_rows_subset by blast
      with batch_in_logs [OF assms(1) b] have "x \<in> set status_logs" by blast
      with assms(3) key_rows_key [OF x] show "availableBalance x = None" by simp
    qed
    with p show "s_avg_balance p = None"
      by (simp add: stability_agg_def mean_None)
  qed
  then have bal: "s_avg_balance ?g = None"
    by (simp add: with_stability_score_def stability_reagg_def mean_None)
  from partials_of_key_nonempty [OF assms(1) mem]
  obtain p where "p \<in> set ?ps" by (cases ?ps) auto
  with partials_of_key_rate [of p] have "\<exists>p \<in> set ?ps. s_employment_rate p \<noteq> None" by blast
  then have rate: "s_employment_rate ?g \<noteq> None"
    by (auto simp: with_stability_score_def stability_reagg_def mean_None)
  from row bal rate show ?thesis by blast
qed

lemma quiet_single: "stability_single_pass [quiet_row] =
   [\<lparr>s_participantId = Some 1, s_month = Some ''2022-03'', s_employment_rate = Some 1,
     s_job_changes = 1, s_avg_balance = None, s_stability_score = Some 1\<rparr>]"
  by code_simp

text \<open>
  At the source's batch size, a log of one row without a balance: its group is a row of
  the stability table.
\<close>

theorem stability_absent_balance_group_in_table:
  "availableBalance quiet_row = None \<and>
   rows (analyze_employment_stability [quiet_row]) =
     [\<lparr>s_participantId = Some 1, s_month = Some ''2022-03'', s_employment_rate = Some 1,
       s_job_changes = 1, s_avg_balance = None, s_stability_score = Some 1\<rparr>]"
proof -
  have "rows (analyze_employment_stability [quiet_row]) = stability_single_pass [quiet_row]"
    unfolding analyze_employment_stability_def
    by (rule stability_one_batch) (simp_all add: batch_size_default_def)
  then show ?thesis by (simp add: quiet_single) (simp add: quiet_row_def)
qed

theorem stability_absent_balance_group_kept_witness:
  "0 < (2::nat) \<and> quiet_row \<in> set [quiet_row, quiet_row, quiet_row] \<and>
   (\<exists>g. filter (\<lambda>g. final_key g = stability_key quiet_row)
            (rows (stability_batched 2 [quiet_row, quiet_row, quiet_row])) = [g]
        \<and> s_avg_balance g = None \<and> s_employment_rate g \<noteq> None)"
proof -
  have h: "\<forall>x \<in> set [quiet_row, quiet_row, quiet_row].
             stability_key x = stability_key quiet_row \<longrightarrow> availableBalance x = None"
    by (simp add: quiet_row_def)
  have pos: "0 < (2::nat)" by simp
  have mem: "quiet_row \<in> set [quiet_row, quiet_row, quiet_row]" by simp
  from stability_absent_balance_group_kept [OF pos mem h] pos mem show ?thesis by blast
qed

section \<open>The empty status log\<close>

lemma batches_Nil: "batches bs [] = []"
  by (simp add: batches_def batch_ranges_def batch_ranges_from.simps [of 0 0 bs])

text \<open>
  C7, at the empty status log. The pool of the stability analysis is empty and the
  function returns early with a frame of five columns: \<open>stability_score\<close>, which the
  other path adds after the re-aggregation, is missing. (The turnover frame has the same
  five columns on both of its paths.)
\<close>

theorem stability_empty_frame_lacks_score:
  "analyze_employment_stability [] =
     \<lparr>columns = [''participantId'', ''month'', ''employment_rate'', ''job_changes'',
                 ''avg_balance''],
      rows = []\<rparr>
   \<and> columns (analyze_employment_stability [quiet_row]) =
       [''participantId'', ''month'', ''employment_rate'', ''job_changes'',
        ''avg_balance'', ''stability_score'']
   \<and> calculate_turnover_rates jobs_lookup [] =
     \<lparr>columns = [''month'', ''employerId'', ''new_hires'', ''avg_tenure_days'',
                 ''turnover_rate''],
      rows = []\<rparr>"
proof -
  have empty: "analyze_employment_stability [] =
     \<lparr>columns = [''participantId'', ''month'', ''employment_rate'', ''job_changes'',
                 ''avg_balance''], rows = []\<rparr>"
    by (simp add: analyze_employment_stability_def stability_batched_def
        all_stability_data_def batches_Nil)
  have "all_stability_data batch_size_default [quiet_row] = [batch_stability [quiet_row]]"
    by (simp add: all_stability_data_def batches_one batch_size_default_def
        batch_stability_eq group_by_def)
  then have full: "columns (analyze_employment_stability [quiet_row]) =
       [''participantId'', ''month'', ''employment_rate'', ''job_changes'',
        ''avg_balance'', ''stability_score'']"
    by (simp add: analyze_employment_stability_def stability_batched_def)
  have turnover: "calculate_turnover_rates jobs_lookup [] =
     \<lparr>columns = [''month'', ''employerId'', ''new_hires'', ''avg_tenure_days'',
                 ''turnover_rate''], rows = []\<rparr>"
    by (simp add: calculate_turnover_rates_def turnover_batched_def
        all_turnover_data_def batches_Nil)
  from empty full turnover show ?thesis by blast
qed

section \<open>Missing and unreadable sources\<close>

lemma and_then_isl: "isl (and_then x f) \<longleftrightarrow> isl x \<or> (\<exists>v. x = Inr v \<and> isl (f v))"
  by (cases x) (simp_all add: and_then_def)

lemma collect_frames_isl: "isl (collect_frames dfs) \<longleftrightarrow> (\<exists>df \<in> set dfs. isl df)"
  by (induction dfs rule: collect_frames.induct) (auto split: sum.splits)

lemma load_logs_isl:
  "isl (load_participant_status_logs c fs) \<longleftrightarrow>
     glob_status_logs fs = [] \<or> (\<exists>f \<in> set (glob_status_logs fs). isl (snd f))"
  by (auto simp: load_participant_status_logs_def Let_def and_then_isl collect_frames_isl)

lemma read_csv_isl: "isl (read_csv dir name) \<longleftrightarrow> dir name = None \<or> unreadable (dir name)"
  by (auto simp: read_csv_def unreadable_def split: option.splits sum.splits)

lemma load_attribute_isl: "isl (load_attribute fs name) \<longleftrightarrow> unreadable (attributes fs name)"
  by (auto simp: load_attribute_def unreadable_def split: option.splits sum.splits)

lemma load_attribute_missing:
  "attributes fs name = None \<Longrightarrow> load_attribute fs name = Inr empty_frame"
  by (simp add: load_attribute_def)

lemma load_all_data_isl:
  "isl (load_all_data c fs) \<longleftrightarrow>
     isl (load_participant_status_logs c fs)
     \<or> isl (read_csv (journals fs) ''FinancialJournal.csv'')
     \<or> isl (read_csv (journals fs) ''CheckinJournal.csv'')
     \<or> isl (read_csv (journals fs) ''TravelJournal.csv'')
     \<or> isl (read_csv (journals fs) ''SocialNetwork.csv'')
     \<or> isl (load_attribute fs ''Participants.csv'')
     \<or> isl (load_attribute fs ''Jobs.csv'')
     \<or> isl (load_attribute fs ''Employers.csv'')
     \<or> isl (load_attribute fs ''Apartments.csv'')
     \<or> isl (load_attribute fs ''Buildings.csv'')
     \<or> isl (load_attribute fs ''Restaurants.csv'')
     \<or> isl (load_attribute fs ''Pubs.csv'')
     \<or> isl (load_attribute fs ''Schools.csv'')"
  unfolding load_all_data_def and_then_def
  by (simp split: sum.splits)

lemma load_all_data_fails_iff:
  "isl (load_all_data c fs) \<longleftrightarrow> fatal_source_missing fs \<or> source_unreadable fs"
  unfolding load_all_data_isl load_logs_isl read_csv_isl load_attribute_isl
    fatal_source_missing_def source_unreadable_def journal_files_def attribute_fields_def
  by (simp only: list.set ball_simps bex_simps fst_conv) blast

lemma load_all_data_fields:
  assumes "load_all_data c fs = Inr raw"
  shows "load_attribute fs ''Participants.csv'' = Inr (participants raw)
       \<and> load_attribute fs ''Jobs.csv'' = Inr (jobs raw)
       \<and> load_attribute fs ''Employers.csv'' = Inr (employers raw)
       \<and> load_attribute fs ''Apartments.csv'' = Inr (apartments raw)
       \<and> load_attribute fs ''Buildings.csv'' = Inr (buildings raw)
       \<and> load_attribute fs ''Restaurants.csv'' = Inr (restaurants raw)
       \<and> load_attribute fs ''Pubs.csv'' = Inr (pubs raw)
       \<and> load_attribute fs ''Schools.csv'' = Inr (schools raw)"
  using assms unfolding load_all_data_def and_then_def
  by (auto split: sum.splits)

lemma load_all_data_not_found:
  assumes "fatal_source_missing fs" and "\<not> source_unreadable fs"
  shows "\<exists>msg. load_all_data c fs = Inl (FileNotFoundError msg)"
proof (cases "glob_status_logs fs = []")
  case True
  then show ?thesis
    by (simp add: load_all_data_def load_participant_status_logs_def and_then_def)
next
  case False
  from assms(2) have "\<not> isl (load_participant_status_logs c fs)"
    using False by (simp add: load_logs_isl source_unreadable_def)
  then obtain logs where logs: "load_participant_status_logs c fs = Inr logs"
    by (cases "load_participant_status_logs c fs") auto
  from assms(2) have readable: "\<forall>name \<in> set journal_files. \<not> unreadable (journals fs name)"
    by (simp add: source_unreadable_def)
  from assms(1) False have "\<exists>name \<in> set journal_files. journals fs name = None"
    by (simp add: fatal_source_missing_def)
  with readable show ?thesis
    unfolding load_all_data_def logs
    by (auto simp: and_then_def read_csv_def journal_files_def unreadable_def
        split: option.splits sum.splits)
qed

lemma main_aborts:
  assumes "isl (load_all_data c fs)"
  shows "main db_open process_and_save c fs = 1
       \<and> Process_and_save \<notin> set (stages_entered db_open c fs)"
proof -
  from assms obtain e where "load_all_data c fs = Inl e"
    by (cases "load_all_data c fs") auto
  then show ?thesis
    by (cases db_open) (simp_all add: main_def stages_entered_def)
qed

text \<open>
  C8, as the code has it. When no file matches the status log pattern (the directory may
  be missing altogether) or one of the four journal files does not exist,
  \<open>load_all_data\<close> raises, \<open>main\<close> ends with status 1 whatever the processing would
  have done, and the processing and saving stage is never entered; the error is
  \<open>FileNotFoundError\<close> when every file that exists can be read. The load raises in no
  other case than these and an existing file that cannot be read. In particular a
  missing attribute file raises nothing: after a successful load the field of every
  missing attribute file holds the empty frame, the run enters the processing stage,
  and its exit status is decided there.
\<close>

theorem missing_source_fatal:
  "(fatal_source_missing fs \<longrightarrow>
      isl (load_all_data c fs)
      \<and> main db_open process_and_save c fs = 1
      \<and> Process_and_save \<notin> set (stages_entered db_open c fs))
   \<and> (fatal_source_missing fs \<and> \<not> source_unreadable fs \<longrightarrow>
      (\<exists>msg. load_all_data c fs = Inl (FileNotFoundError msg)))
   \<and> (isl (load_all_data c fs) \<longleftrightarrow> fatal_source_missing fs \<or> source_unreadable fs)
   \<and> (\<forall>raw. load_all_data c fs = Inr raw \<longrightarrow>
        (\<forall>a \<in> set attribute_fields. attributes fs (fst a) = None \<longrightarrow> snd a raw = empty_frame)
        \<and> stages_entered (Inr ()) c fs = [Open_database, Load_raw_data, Process_and_save]
        \<and> main (Inr ()) process_and_save c fs =
            (case process_and_save raw of Inl e \<Rightarrow> 1 | Inr u \<Rightarrow> 0))"
proof (intro conjI impI allI)
  assume "fatal_source_missing fs"
  then have fails: "isl (load_all_data c fs)" by (simp add: load_all_data_fails_iff)
  then show "isl (load_all_data c fs)" .
  from fails show "main db_open process_and_save c fs = 1"
    using main_aborts by blast
  from fails show "Process_and_save \<notin> set (stages_entered db_open c fs)"
    using main_aborts by blast
next
  assume "fatal_source_missing fs \<and> \<not> source_unreadable fs"
  then show "\<exists>msg. load_all_data c fs = Inl (FileNotFoundError msg)"
    using load_all_data_not_found by blast
next
  show "isl (load_all_data c fs) \<longleftrightarrow> fatal_source_missing fs \<or> source_unreadable fs"
    by (rule load_all_data_fails_iff)
next
  fix raw assume raw: "load_all_data c fs = Inr raw"
  show "\<forall>a \<in> set attribute_fields. attributes fs (fst a) = None \<longrightarrow> snd a raw = empty_frame"
    using load_all_data_fields [OF raw]
    by (auto simp: attribute_fields_def load_attribute_missing)
  from raw show "stages_entered (Inr ()) c fs = [Open_database, Load_raw_data, Process_and_save]"
    by (simp add: stages_entered_def)
  from raw show "main (Inr ()) process_and_save c fs =
      (case process_and_save raw of Inl e \<Rightarrow> 1 | Inr u \<Rightarrow> 0)"
    by (simp add: main_def)
qed

lemma example_load: "load_all_data example_casts example_fs = Inr example_raw_data"
  by code_simp

lemma no_logs_glob: "glob_status_logs no_logs_fs = []"
  by (simp add: glob_status_logs_def no_logs_fs_def)

lemma no_logs_readable: "\<not> source_unreadable no_logs_fs"
  by code_simp

theorem missing_source_fatal_witness:
  "fatal_source_missing no_logs_fs
   \<and> \<not> source_unreadable no_logs_fs
   \<and> (\<exists>msg. load_all_data example_casts no_logs_fs = Inl (FileNotFoundError msg))
   \<and> main (Inr ()) (\<lambda>raw. Inr ()) example_casts no_logs_fs = 1
   \<and> Process_and_save \<notin> set (stages_entered (Inr ()) example_casts no_logs_fs)
   \<and> load_all_data example_casts example_fs = Inr example_raw_data
   \<and> (''Schools.csv'', schools) \<in> set attribute_fields
   \<and> attributes example_fs ''Schools.csv'' = None
   \<and> schools example_raw_data = empty_frame
   \<and> stages_entered (Inr ()) example_casts example_fs =
       [Open_database, Load_raw_data, Process_and_save]"
proof -
  have missing: "fatal_source_missing no_logs_fs"
    by (simp add: fatal_source_missing_def no_logs_glob)
  have field: "(''Schools.csv'', schools) \<in> set attribute_fields"
    by (simp add: attribute_fields_def)
  have absent: "attributes example_fs ''Schools.csv'' = None"
    by (simp add: example_fs_def example_attributes_def)
  from missing_source_fatal [of no_logs_fs example_casts "Inr ()" "\<lambda>raw. Inr ()"]
    missing no_logs_readable
  have fatal: "(\<exists>msg. load_all_data example_casts no_logs_fs = Inl (FileNotFoundError msg))
      \<and> main (Inr ()) (\<lambda>raw. Inr ()) example_casts no_logs_fs = 1
      \<and> Process_and_save \<notin> set (stages_entered (Inr ()) example_casts no_logs_fs)"
    by blast
  from missing_source_fatal [of example_fs example_casts "Inr ()" "\<lambda>raw. Inr ()"] example_load
  have "(\<forall>a \<in> set attribute_fields.
            attributes example_fs (fst a) = None \<longrightarrow> snd a example_raw_data = empty_frame)
      \<and> stages_entered (Inr ()) example_casts example_fs =
          [Open_database, Load_raw_data, Process_and_save]"
    by blast
  with field absent have loaded: "schools example_raw_data = empty_frame
      \<and> stages_entered (Inr ()) example_casts example_fs =
          [Open_database, Load_raw_data, Process_and_save]"
    by force
  from missing no_logs_readable fatal example_load field absent loaded show ?thesis by blast
qed

text \<open>
  The sample directory has every file that the loader reads, each of them readable,
  but no \<open>Schools.csv\<close>: the load raises nothing, puts the empty frame in its place, and
  the run enters the processing stage.
\<close>

theorem missing_attribute_file_not_fatal:
  "attributes example_fs ''Schools.csv'' = None
   \<and> load_all_data example_casts example_fs = Inr example_raw_data
   \<and> schools example_raw_data = empty_frame
   \<and> stages_entered (Inr ()) example_casts example_fs =
       [Open_database, Load_raw_data, Process_and_save]"
proof -
  have "attributes example_fs ''Schools.csv'' = None"
    by (simp add: example_fs_def example_attributes_def)
  moreover have "schools example_raw_data = empty_frame"
    by (simp add: example_raw_data_def)
  moreover have "stages_entered (Inr ()) example_casts example_fs =
       [Open_database, Load_raw_data, Process_and_save]"
    by (simp add: stages_entered_def example_load)
  ultimately show ?thesis using example_load by blast
qed

section \<open>Bounds of the turnover table\<close>

lemma fold_min_le: "fold min vs (v::int) \<le> v"
proof (induction vs arbitrary: v)
  case Nil
  then show ?case by simp
next
  case (Cons a vs)
  have "fold min vs (min a v) \<le> min a v" by (rule Cons.IH)
  then show ?case by simp
qed

lemma fold_max_ge: "(v::int) \<le> fold max vs v"
proof (induction vs arbitrary: v)
  case Nil
  then show ?case by simp
next
  case (Cons a vs)
  have "max a v \<le> fold max vs (max a v)" by (rule Cons.IH)
  then show ?case by simp
qed

lemma col_min_le_col_max:
  assumes "col_min xs = Some s" and "col_max xs = Some e"
  shows "s \<le> e"
proof (cases "drop_nulls xs")
  case Nil
  with assms show ?thesis by (simp add: col_min_def)
next
  case (Cons v vs)
  with assms have "s = fold min vs v" and "e = fold max vs v"
    by (simp_all add: col_min_def col_max_def)
  with fold_min_le [of vs v] fold_max_ge [of v vs] show ?thesis by simp
qed

lemma tenure_agg_dates:
  assumes "t_tenure_days (tenure_agg g) = Some d"
  shows "\<exists>s e. t_start_date (tenure_agg g) = Some s \<and> t_end_date (tenure_agg g) = Some e
           \<and> s \<le> e \<and> d = total_days (e - s)"
proof -
  obtain p j em periods where g: "g = ((p, j, em), periods)" by (cases g) auto
  let ?ts = "map period_timestamp periods"
  from assms g obtain s e where s: "col_min ?ts = Some s" and e: "col_max ?ts = Some e"
    and d: "d = total_days (e - s)"
    by (auto simp: tenure_agg_def Let_def split: option.splits)
  from s e have "s \<le> e" by (rule col_min_le_col_max)
  with g s e d show ?thesis by (simp add: tenure_agg_def Let_def)
qed

lemma batch_tenure_row:
  assumes "t \<in> set (batch_tenure jobs_lookup b)"
  shows "\<exists>s e d. t_start_date t = Some s \<and> t_end_date t = Some e \<and> s \<le> e
           \<and> t_tenure_days t = Some d \<and> 0 \<le> d"
proof -
  from assms obtain g where t: "t = tenure_agg g" and nn: "tenure_non_negative t"
    by (auto simp: batch_tenure_def Let_def split: if_splits)
  from nn obtain d where d: "t_tenure_days t = Some d" and "0 \<le> d"
    by (auto simp: tenure_non_negative_def split: option.splits)
  with t tenure_agg_dates [of g d] show ?thesis by auto
qed

lemma turnover_agg_bounds:
  assumes "snd g \<noteq> []"
  shows "1 \<le> r_new_hires (turnover_agg g) \<and> 0 \<le> r_turnover_rate (turnover_agg g)
       \<and> r_turnover_rate (turnover_agg g) \<le> 1"
proof -
  let ?n = "length (snd g)"
  let ?k = "length (filter short_tenure (snd g))"
  from assms have n: "1 \<le> ?n" by (cases "snd g") auto
  have "?k \<le> ?n" by simp
  then have "(of_nat ?k :: rat) \<le> of_nat ?n" by (simp only: of_nat_le_iff)
  moreover from assms have "(0 :: rat) < of_nat ?n" by simp
  ultimately have "(of_nat ?k :: rat) / of_nat ?n \<le> 1" by (simp add: divide_le_eq_1)
  moreover have "(0 :: rat) \<le> of_nat ?k / of_nat ?n" by simp
  ultimately show ?thesis using n by (simp add: turnover_agg_def Let_def)
qed

text \<open>
  C9. For every jobs dictionary, batch size and status log: each row of the final
  turnover table counts at least one hire and has a turnover rate between 0 and 1, so
  the quotient \<open>short_tenure_count / new_hires\<close> never has a zero divisor; and each tenure
  record of the pool has a start and an end instant with start \<open>\<le>\<close> end and a tenure of
  at least zero whole days.
\<close>

theorem turnover_bounds:
  "(\<forall>row \<in> set (rows (turnover_batched jobs_lookup batch_size status_logs)).
      1 \<le> r_new_hires row \<and> 0 \<le> r_turnover_rate row \<and> r_turnover_rate row \<le> 1)
   \<and> (\<forall>t \<in> set (concat (all_turnover_data jobs_lookup batch_size status_logs)).
      \<exists>s e d. t_start_date t = Some s \<and> t_end_date t = Some e \<and> s \<le> e
         \<and> t_tenure_days t = Some d \<and> 0 \<le> d)"
proof
  let ?pool = "all_turnover_data jobs_lookup batch_size status_logs"
  show "\<forall>row \<in> set (rows (turnover_batched jobs_lookup batch_size status_logs)).
      1 \<le> r_new_hires row \<and> 0 \<le> r_turnover_rate row \<and> r_turnover_rate row \<le> 1"
  proof
    fix row assume "row \<in> set (rows (turnover_batched jobs_lookup batch_size status_logs))"
    then obtain g where "g \<in> set (group_by tenure_key (concat ?pool))" and row: "row = turnover_agg g"
      by (auto simp: turnover_batched_def Let_def split: if_splits)
    then have "snd g \<noteq> []" using group_by_nonempty by blast
    with row show "1 \<le> r_new_hires row \<and> 0 \<le> r_turnover_rate row \<and> r_turnover_rate row \<le> 1"
      using turnover_agg_bounds by blast
  qed
  show "\<forall>t \<in> set (concat ?pool).
      \<exists>s e d. t_start_date t = Some s \<and> t_end_date t = Some e \<and> s \<le> e
         \<and> t_tenure_days t = Some d \<and> 0 \<le> d"
  proof
    fix t assume "t \<in> set (concat ?pool)"
    then obtain b where "t \<in> set (batch_tenure jobs_lookup b)"
      by (auto simp: all_turnover_data_def)
    then show "\<exists>s e d. t_start_date t = Some s \<and> t_end_date t = Some e \<and> s \<le> e
         \<and> t_tenure_days t = Some d \<and> 0 \<le> d"
      by (rule batch_tenure_row)
  qed
qed

theorem turnover_bounds_witness:
  "rows (turnover_batched example_jobs_lookup 2
           [employed_row, employed_row\<lparr>timestamp := Some 1646265600\<rparr>]) =
     [\<lparr>r_month = Some ''2022-03'', r_employerId = Some 3, r_new_hires = 1,
       r_avg_tenure_days = Some 2, r_turnover_rate = 1\<rparr>]
   \<and> concat (all_turnover_data example_jobs_lookup 2
           [employed_row, employed_row\<lparr>timestamp := Some 1646265600\<rparr>]) =
     [\<lparr>t_participantId = Some 1, t_jobId = Some 7, t_employerId = Some 3,
       t_start_date = Some 1646092800, t_end_date = Some 1646265600,
       t_tenure_days = Some 2, t_start_month = Some ''2022-03''\<rparr>]
   \<and> (1::nat) \<le> 1 \<and> (0::rat) \<le> 1 \<and> (1::rat) \<le> 1
   \<and> (\<exists>s e d. Some (1646092800::int) = Some s \<and> Some (1646265600::int) = Some e \<and> s \<le> e
         \<and> Some (2::int) = Some d \<and> 0 \<le> d)"
proof -
  let ?logs = "[employed_row, employed_row\<lparr>timestamp := Some 1646265600\<rparr>]"
  have final: "rows (turnover_batched example_jobs_lookup 2 ?logs) =
     [\<lparr>r_month = Some ''2022-03'', r_employerId = Some 3, r_new_hires = 1,
       r_avg_tenure_days = Some 2, r_turnover_rate = 1\<rparr>]"
    by code_simp
  have pool: "concat (all_turnover_data example_jobs_lookup 2 ?logs) =
     [\<lparr>t_participantId = Some 1, t_jobId = Some 7, t_employerId = Some 3,
       t_start_date = Some 1646092800, t_end_date = Some 1646265600,
       t_tenure_days = Some 2, t_start_month = Some ''2022-03''\<rparr>]"
    by code_simp
  from turnover_bounds [of example_jobs_lookup 2 ?logs]
  show ?thesis unfolding final pool by simp
qed

section \<open>Absent identifiers\<close>

lemma digit_cases:
  "d < (10::nat) \<Longrightarrow>
     d = 0 \<or> d = 1 \<or> d = 2 \<or> d = 3 \<or> d = 4 \<or> d = 5 \<or> d = 6 \<or> d = 7 \<or> d = 8 \<or> d = 9"
  by arith

lemma digit_value_char: "d < 10 \<Longrightarrow> digit_value (digit_char (int d)) = Some d"
  using digit_cases [of d] by (auto simp: digit_value_def digit_char_def)

lemma digit_char_not_sign:
  "d < 10 \<Longrightarrow> digit_char (int d) \<notin> {CHR ''-'', CHR ''+'', CHR ''n'', CHR ''N''}"
  using digit_cases [of d] by (auto simp: digit_char_def)

lemma parse_digits_snoc:
  "parse_digits acc (cs @ [c]) =
     (case parse_digits acc cs of None \<Rightarrow> None
      | Some n \<Rightarrow> (case digit_value c of None \<Rightarrow> None | Some d \<Rightarrow> Some (10 * n + d)))"
  by (induction cs arbitrary: acc) (auto split: option.splits)

lemma parse_digits_nat_text: "parse_digits 0 (nat_text n) = Some n"
proof (induction n rule: nat_text.induct)
  case (1 n)
  show ?case
  proof (cases "n < 10")
    case True
    then show ?thesis
      by (simp add: nat_text.simps [of n] digit_value_char)
  next
    case False
    with "1.IH" have "parse_digits 0 (nat_text (n div 10)) = Some (n div 10)" by simp
    with False show ?thesis
      by (simp add: nat_text.simps [of n] parse_digits_snoc digit_value_char)
  qed
qed

lemma nat_text_head:
  "\<exists>c cs. nat_text n = c # cs \<and> c \<notin> {CHR ''-'', CHR ''+'', CHR ''n'', CHR ''N''}"
proof (induction n rule: nat_text.induct)
  case (1 n)
  show ?case
  proof (cases "n < 10")
    case True
    then show ?thesis
      using digit_char_not_sign [of n] by (simp add: nat_text.simps [of n])
  next
    case False
    with "1.IH" obtain c cs where "nat_text (n div 10) = c # cs"
      and "c \<notin> {CHR ''-'', CHR ''+'', CHR ''n'', CHR ''N''}" by blast
    with False show ?thesis by (simp add: nat_text.simps [of n])
  qed
qed

lemma parse_nat_text: "parse_nat (nat_text n) = Some n"
  using nat_text_head [of n] by (auto simp: parse_nat_def parse_digits_nat_text)

lemma int64_of_string_text:
  assumes "in_int64 i"
  shows "int64_of_string (int_text i) = Some i"
proof (cases "i < 0")
  case True
  with assms show ?thesis
    by (simp add: int64_of_string_def int_text_def parse_nat_text checked_int64_def)
next
  case False
  obtain c cs where nt: "nat_text (nat i) = c # cs"
    and c: "c \<notin> {CHR ''-'', CHR ''+'', CHR ''n'', CHR ''N''}"
    using nat_text_head by blast
  have "parse_nat (c # cs) = Some (nat i)"
    using parse_nat_text [of "nat i"] nt by simp
  with False assms c nt show ?thesis
    by (simp add: int64_of_string_def int_text_def checked_int64_def)
qed

lemma int64_of_string_range: "int64_of_string s = Some i \<Longrightarrow> in_int64 i"
  by (auto simp: int64_of_string_def checked_int64_def Option.bind_eq_Some_conv
      split: list.splits if_splits)

lemma int_text_present: "Some (int_text i) \<notin> set absent_markers"
proof (cases "i < 0")
  case True
  then show ?thesis by (simp add: int_text_def absent_markers_def)
next
  case False
  obtain c cs where "nat_text (nat i) = c # cs"
    and "c \<notin> {CHR ''-'', CHR ''+'', CHR ''n'', CHR ''N''}"
    using nat_text_head by blast
  with False show ?thesis by (auto simp: int_text_def absent_markers_def)
qed

lemma normalize_id_range: "normalize_id int64_of_string v = Some i \<Longrightarrow> in_int64 i"
  by (cases v) (auto simp: normalize_id_def dest: int64_of_string_range split: if_splits)

lemma normalize_id_again:
  "normalize_id int64_of_string (map_option int_text (normalize_id int64_of_string v))
     = normalize_id int64_of_string v"
proof (cases "normalize_id int64_of_string v")
  case None
  then show ?thesis by (simp add: normalize_id_def absent_markers_def)
next
  case (Some i)
  then have "in_int64 i" by (rule normalize_id_range)
  then have "int64_of_string (int_text i) = Some i" by (rule int64_of_string_text)
  with Some int_text_present [of i] show ?thesis by (simp add: normalize_id_def)
qed

text \<open>
  C4. For \<open>apartmentId\<close> and \<open>jobId\<close> the loader computes \<open>normalize_id\<close>. Whatever the
  integer conversion is, each of the four markers (the empty text, \<open>null\<close>, \<open>None\<close> and a
  true null) gives the one absent value \<open>None\<close>: the result for a marker does not depend
  on the conversion, which is therefore not consulted for it. And normalizing is
  idempotent: writing a normalized column back as text (null for absent, the decimal
  text for an integer) and normalizing it again returns the same column.
\<close>

theorem absence_normalization:
  "normalize_id cast None = None
   \<and> normalize_id cast (Some []) = None
   \<and> normalize_id cast (Some ''null'') = None
   \<and> normalize_id cast (Some ''None'') = None
   \<and> apartmentId (normalize_row c r) = normalize_id (cast_int64 c) (raw_apartmentId r)
   \<and> jobId (normalize_row c r) = normalize_id (cast_int64 c) (raw_jobId r)
   \<and> map (normalize_id int64_of_string)
        (map (map_option int_text) (map (normalize_id int64_of_string) column))
      = map (normalize_id int64_of_string) column"
proof -
  have markers: "normalize_id cast None = None \<and> normalize_id cast (Some []) = None
      \<and> normalize_id cast (Some ''null'') = None \<and> normalize_id cast (Some ''None'') = None"
    by (simp add: normalize_id_def absent_markers_def)
  have loader: "apartmentId (normalize_row c r) = normalize_id (cast_int64 c) (raw_apartmentId r)
      \<and> jobId (normalize_row c r) = normalize_id (cast_int64 c) (raw_jobId r)"
    by (simp add: normalize_row_def)
  have again: "map (normalize_id int64_of_string)
        (map (map_option int_text) (map (normalize_id int64_of_string) column))
      = map (normalize_id int64_of_string) column"
    by (simp add: normalize_id_again)
  from markers loader again show ?thesis by blast
qed

section \<open>A status log cut into two batches\<close>

text \<open>
  The source's batch size is 5,000,000 rows, so the smallest log that the loop cuts has
  5,000,001 rows. The lemmas of this section evaluate the two analyses on a log made of
  one row repeated 5,000,000 times and one more row.
\<close>

lemma batch_ranges_two:
  "0 < bs \<Longrightarrow> 0 < m \<Longrightarrow> m \<le> bs \<Longrightarrow> batch_ranges (bs + m) bs = [(0, bs), (bs, bs + m)]"
  by (simp add: batch_ranges_def batch_ranges_from.simps [of 0 "bs + m" bs]
      batch_ranges_from.simps [of bs "bs + m" bs] batch_ranges_from.simps [of "bs + bs" "bs + m" bs]
      min_def)

lemma batches_two:
  assumes "0 < bs" and "length xs = bs" and "ys \<noteq> []" and "length ys \<le> bs"
  shows "batches bs (xs @ ys) = [xs, ys]"
proof -
  from assms have "batch_ranges (length (xs @ ys)) bs = [(0, bs), (bs, bs + length ys)]"
    using batch_ranges_two [of bs "length ys"] by simp
  with assms show ?thesis by (simp add: batches_def slice_def)
qed

lemma remdups_replicate_append: "remdups (replicate (Suc n) x @ ys) = remdups (x # ys)"
  by (induction n) auto

lemma remdups_replicate_one: "remdups (replicate (Suc n) x) = [x]"
  using remdups_replicate_append [of n x "[]"] by simp

lemma map_constant: "\<forall>x \<in> set xs. f x = v \<Longrightarrow> map f xs = replicate (length xs) v"
  by (induction xs) auto

lemma group_by_constant_key:
  assumes "xs \<noteq> []" and "\<forall>x \<in> set xs. key x = k"
  shows "group_by key xs = [(k, xs)]"
proof -
  from assms(1) obtain n where n: "length xs = Suc n" by (cases xs) auto
  from assms(2) have "map key xs = replicate (length xs) k" by (rule map_constant)
  then have "remdups (map key xs) = [k]"
    unfolding n by (simp only: remdups_replicate_one)
  moreover from assms(2) have "filter (\<lambda>x. key x = k) xs = xs" by (simp add: filter_id_conv)
  ultimately show ?thesis by (simp add: group_by_def)
qed

lemma mean_replicate: "mean (replicate (Suc n) x) = x"
proof (cases x)
  case None
  have "drop_nulls (replicate m (None :: rat option)) = []" for m
    by (induction m) auto
  with None show ?thesis by (simp add: mean_def del: replicate_Suc)
next
  case (Some v)
  have "drop_nulls (replicate m (Some v)) = replicate m v" for m
    by (induction m) auto
  with Some show ?thesis
    by (simp add: mean_def sum_list_replicate del: replicate_Suc of_nat_Suc)
qed

lemma bool_mean_replicate: "bool_mean (replicate (Suc n) b) = Some (if b then 1 else 0)"
  by (simp only: bool_mean_def map_replicate mean_replicate)

lemma batch_stability_uniform:
  assumes "logs \<noteq> []"
    and "\<forall>x \<in> set logs. stability_key x = k \<and> jobId x = j \<and> availableBalance x = b"
  shows "batch_stability logs =
     [\<lparr>s_participantId = fst k, s_month = snd k,
       s_employment_rate = Some (if j \<noteq> None then 1 else 0), s_job_changes = 1,
       s_avg_balance = b\<rparr>]"
proof -
  from assms(1) obtain n where n: "length logs = Suc n" by (cases logs) auto
  from assms have grp: "group_by stability_key logs = [(k, logs)]"
    by (simp add: group_by_constant_key)
  have "\<forall>x \<in> set logs. is_employed x = (j \<noteq> None)"
    using assms(2) by (simp add: is_employed_def)
  then have emp: "map is_employed logs = replicate (Suc n) (j \<noteq> None)"
    unfolding n [symmetric] by (rule map_constant)
  have "\<forall>x \<in> set logs. jobId x = j" using assms(2) by simp
  then have job: "map jobId logs = replicate (Suc n) j"
    unfolding n [symmetric] by (rule map_constant)
  have "\<forall>x \<in> set logs. availableBalance x = b" using assms(2) by simp
  then have bal: "map availableBalance logs = replicate (Suc n) b"
    unfolding n [symmetric] by (rule map_constant)
  have uniq: "n_unique (replicate (Suc n) j) = 1"
    unfolding n_unique_def by (simp only: remdups_replicate_one) simp
  show ?thesis
    unfolding batch_stability_eq grp
    by (simp add: stability_agg_def emp job bal bool_mean_replicate uniq mean_replicate
        del: replicate_Suc)
qed

lemma stability_rows_two_batches:
  assumes "0 < bs" and "length xs = bs" and "ys \<noteq> []" and "length ys \<le> bs"
  shows "rows (stability_batched bs (xs @ ys)) =
     map with_stability_score
       (map stability_reagg (group_by partial_key (batch_stability xs @ batch_stability ys)))"
proof -
  have "concat (all_stability_data bs (xs @ ys)) = batch_stability xs @ batch_stability ys"
    using assms
    by (simp add: all_stability_data_def concat_filter_nonempty batches_two
        del: length_greater_0_conv)
  then show ?thesis by (simp add: stability_rows_eq)
qed

lemma turnover_rows_eq:
  "rows (turnover_batched jobs_lookup bs logs) =
     map turnover_agg (group_by tenure_key (concat (map (batch_tenure jobs_lookup) (batches bs logs))))"
proof -
  let ?pool = "all_turnover_data jobs_lookup bs logs"
  have pool: "concat ?pool = concat (map (batch_tenure jobs_lookup) (batches bs logs))"
    by (simp add: all_turnover_data_def concat_filter_nonempty del: length_greater_0_conv)
  show ?thesis
  proof (cases "?pool = []")
    case True
    then have "concat ?pool = []" by simp
    with pool have "concat (map (batch_tenure jobs_lookup) (batches bs logs)) = []" by simp
    then have "map turnover_agg (group_by tenure_key
        (concat (map (batch_tenure jobs_lookup) (batches bs logs)))) = []"
      by (simp only: group_by_def list.map remdups.simps)
    with True show ?thesis by (simp add: turnover_batched_def)
  next
    case False
    then show ?thesis by (simp add: turnover_batched_def Let_def pool)
  qed
qed

lemma turnover_one_batch:
  assumes "status_logs \<noteq> []" and "length status_logs \<le> batch_size"
  shows "rows (turnover_batched jobs_lookup batch_size status_logs) =
     turnover_single_pass jobs_lookup status_logs"
  using assms by (simp add: turnover_rows_eq batches_one turnover_single_pass_def)

lemma batch_tenure_cong:
  "employed_records b = employed_records b' \<Longrightarrow>
     batch_tenure jobs_lookup b = batch_tenure jobs_lookup b'"
  by (simp add: batch_tenure_def)

lemma employed_records_replicate:
  "employed_records (replicate (Suc n) r @ ys) = employed_records (r # ys)"
proof (cases "jobId r \<noteq> None")
  case True
  then show ?thesis
    using remdups_replicate_append
      [of n "(participantId r, timestamp r, jobId r)"
          "map (\<lambda>r. (participantId r, timestamp r, jobId r)) (filter (\<lambda>r. jobId r \<noteq> None) ys)"]
    by (simp add: employed_records_def del: replicate_Suc)
next
  case False
  then show ?thesis by (simp add: employed_records_def)
qed

lemma employed_row_key: "stability_key employed_row = march_key"
  by code_simp

lemma unemployed_row_key: "stability_key unemployed_row = march_key"
  by code_simp

lemma later_row_key: "stability_key later_row = march_key"
  by code_simp

lemma batch_tenure_replicate:
  assumes "0 < n"
  shows "batch_tenure jobs_lookup (replicate n r @ ys) = batch_tenure jobs_lookup (r # ys)"
proof -
  from assms obtain m where "n = Suc m" by (cases n) auto
  then have "employed_records (replicate n r @ ys) = employed_records (r # ys)"
    by (simp only: employed_records_replicate)
  then show ?thesis by (rule batch_tenure_cong)
qed

lemma drop_nulls_append: "drop_nulls (xs @ ys) = drop_nulls xs @ drop_nulls ys"
  by (induction xs rule: drop_nulls.induct) auto

lemma drop_nulls_replicate: "drop_nulls (replicate n (Some v)) = replicate n v"
  by (induction n) auto

lemma batch_employed:
  "batch_stability (replicate 5000000 employed_row) =
     [\<lparr>s_participantId = Some 1, s_month = Some ''2022-03'', s_employment_rate = Some 1,
       s_job_changes = 1, s_avg_balance = Some 10\<rparr>]"
proof -
  have "replicate 5000000 employed_row \<noteq> []" by simp
  moreover have "\<forall>x \<in> set (replicate 5000000 employed_row).
      stability_key x = march_key \<and> jobId x = Some 7 \<and> availableBalance x = Some 10"
    by (simp add: employed_row_key) (simp add: employed_row_def)
  ultimately show ?thesis
    using batch_stability_uniform [of "replicate 5000000 employed_row" march_key "Some 7" "Some 10"]
    by (simp add: march_key_def)
qed

lemma batch_employed_one:
  "batch_stability [employed_row] =
     [\<lparr>s_participantId = Some 1, s_month = Some ''2022-03'', s_employment_rate = Some 1,
       s_job_changes = 1, s_avg_balance = Some 10\<rparr>]"
  by code_simp

lemma batch_unemployed_one:
  "batch_stability [unemployed_row] =
     [\<lparr>s_participantId = Some 1, s_month = Some ''2022-03'', s_employment_rate = Some 0,
       s_job_changes = 1, s_avg_balance = Some 20\<rparr>]"
  by code_simp

lemma batch_later_one:
  "batch_stability [later_row] =
     [\<lparr>s_participantId = Some 1, s_month = Some ''2022-03'', s_employment_rate = Some 1,
       s_job_changes = 1, s_avg_balance = Some 10\<rparr>]"
  by code_simp

lemma two_batches_default:
  assumes "length xs = 5000000"
  shows "rows (analyze_employment_stability (xs @ [y])) =
     map with_stability_score
       (map stability_reagg (group_by partial_key (batch_stability xs @ batch_stability [y])))"
  unfolding analyze_employment_stability_def batch_size_default_def
  by (rule stability_rows_two_batches) (simp_all add: assms)

text \<open>
  C3, at a status log of 5,000,001 identical rows (participant 1, March 2022, job 7).
  The batch loop cuts it after row 5,000,000; each of the two batches reports one
  distinct job for the key, and phase 2 adds the two counts: \<open>job_changes\<close> is 2, while the
  group holds one distinct job identifier and a single pass reports 1.
\<close>

theorem job_changes_counted_per_batch:
  "rows (analyze_employment_stability (replicate 5000000 employed_row @ [employed_row])) =
     [\<lparr>s_participantId = Some 1, s_month = Some ''2022-03'', s_employment_rate = Some 1,
       s_job_changes = 2, s_avg_balance = Some 10, s_stability_score = Some 1\<rparr>]
   \<and> distinct_job_identifiers march_key (replicate 5000000 employed_row @ [employed_row]) = 1
   \<and> stability_single_pass (replicate 5000000 employed_row @ [employed_row]) =
     [\<lparr>s_participantId = Some 1, s_month = Some ''2022-03'', s_employment_rate = Some 1,
       s_job_changes = 1, s_avg_balance = Some 10, s_stability_score = Some 1\<rparr>]"
proof -
  let ?logs = "replicate 5000000 employed_row @ [employed_row]"
  have uniform: "\<forall>x \<in> set ?logs.
      stability_key x = march_key \<and> jobId x = Some 7 \<and> availableBalance x = Some 10"
    by (simp add: employed_row_key) (simp add: employed_row_def)
  have "rows (analyze_employment_stability ?logs) =
     map with_stability_score (map stability_reagg (group_by partial_key
       (batch_stability (replicate 5000000 employed_row) @ batch_stability [employed_row])))"
    by (rule two_batches_default) simp
  also have "\<dots> = [\<lparr>s_participantId = Some 1, s_month = Some ''2022-03'', s_employment_rate = Some 1,
       s_job_changes = 2, s_avg_balance = Some 10, s_stability_score = Some 1\<rparr>]"
    unfolding batch_employed batch_employed_one by code_simp
  finally have chunked: "rows (analyze_employment_stability ?logs) =
     [\<lparr>s_participantId = Some 1, s_month = Some ''2022-03'', s_employment_rate = Some 1,
       s_job_changes = 2, s_avg_balance = Some 10, s_stability_score = Some 1\<rparr>]" .
  have "key_rows march_key ?logs = ?logs"
    by (simp add: key_rows_def employed_row_key)
  moreover have "map jobId ?logs = replicate 5000000 (Some 7) @ [Some 7]"
    by (simp add: employed_row_def)
  moreover have "remdups (replicate 5000000 (7::int) @ [7]) = [7]"
    using remdups_replicate_append [of 4999999 "7::int" "[7]"] by simp
  ultimately have distinct: "distinct_job_identifiers march_key ?logs = 1"
    by (simp add: distinct_job_identifiers_def drop_nulls_append drop_nulls_replicate)
  have "batch_stability ?logs =
     [\<lparr>s_participantId = Some 1, s_month = Some ''2022-03'', s_employment_rate = Some 1,
       s_job_changes = 1, s_avg_balance = Some 10\<rparr>]"
    using batch_stability_uniform [of ?logs march_key "Some 7" "Some 10"] uniform
    by (simp add: march_key_def)
  then have single: "stability_single_pass ?logs =
     [\<lparr>s_participantId = Some 1, s_month = Some ''2022-03'', s_employment_rate = Some 1,
       s_job_changes = 1, s_avg_balance = Some 10, s_stability_score = Some 1\<rparr>]"
    by (simp add: stability_single_pass_def with_stability_score_def)
  from chunked distinct single show ?thesis by blast
qed

text \<open>
  C2, at a status log of 5,000,000 employed rows followed by one unemployed row of the
  same participant and month (balances 10 and 20). Phase 2 takes the plain mean of the
  two batch means: \<open>employment_rate\<close> is (1 + 0) / 2 and \<open>avg_balance\<close> is (10 + 20) / 2,
  while the means over the 5,000,001 rows are 5000000 / 5000001 and 50000020 / 5000001.
\<close>

theorem means_averaged_unweighted:
  "rows (analyze_employment_stability (replicate 5000000 employed_row @ [unemployed_row])) =
     [\<lparr>s_participantId = Some 1, s_month = Some ''2022-03'', s_employment_rate = Some (1 / 2),
       s_job_changes = 2, s_avg_balance = Some 15, s_stability_score = Some (1 / 2)\<rparr>]
   \<and> total_employment_rate march_key (replicate 5000000 employed_row @ [unemployed_row])
       = 5000000 / 5000001
   \<and> total_avg_balance march_key (replicate 5000000 employed_row @ [unemployed_row])
       = 50000020 / 5000001"
proof -
  let ?logs = "replicate 5000000 employed_row @ [unemployed_row]"
  have "rows (analyze_employment_stability ?logs) =
     map with_stability_score (map stability_reagg (group_by partial_key
       (batch_stability (replicate 5000000 employed_row) @ batch_stability [unemployed_row])))"
    by (rule two_batches_default) simp
  also have "\<dots> = [\<lparr>s_participantId = Some 1, s_month = Some ''2022-03'',
       s_employment_rate = Some (1 / 2), s_job_changes = 2, s_avg_balance = Some 15,
       s_stability_score = Some (1 / 2)\<rparr>]"
    unfolding batch_employed batch_unemployed_one by code_simp
  finally have chunked: "rows (analyze_employment_stability ?logs) =
     [\<lparr>s_participantId = Some 1, s_month = Some ''2022-03'', s_employment_rate = Some (1 / 2),
       s_job_changes = 2, s_avg_balance = Some 15, s_stability_score = Some (1 / 2)\<rparr>]" .
  have group: "key_rows march_key ?logs = ?logs"
    by (simp add: key_rows_def employed_row_key unemployed_row_key)
  have "is_employed employed_row" and "\<not> is_employed unemployed_row"
    by (simp_all add: is_employed_def employed_row_def unemployed_row_def)
  then have "filter is_employed ?logs = replicate 5000000 employed_row"
    by simp
  then have rate: "total_employment_rate march_key ?logs = 5000000 / 5000001"
    by (simp add: total_employment_rate_def group)
  have "map availableBalance ?logs = replicate 5000000 (Some 10) @ [Some 20]"
    by (simp add: employed_row_def unemployed_row_def)
  then have "drop_nulls (map availableBalance ?logs) = replicate 5000000 10 @ [20]"
    by (simp add: drop_nulls_append drop_nulls_replicate)
  then have balance: "total_avg_balance march_key ?logs = 50000020 / 5000001"
    by (simp add: total_avg_balance_def group sum_list_replicate)
  from chunked rate balance show ?thesis by blast
qed

lemma tenure_employed:
  "batch_tenure example_jobs_lookup (replicate 5000000 employed_row) =
     batch_tenure example_jobs_lookup [employed_row]"
  using batch_tenure_replicate [of 5000000 example_jobs_lookup employed_row "[]"] by simp

lemma tenure_whole:
  "batch_tenure example_jobs_lookup (replicate 5000000 employed_row @ [later_row]) =
     batch_tenure example_jobs_lookup [employed_row, later_row]"
  using batch_tenure_replicate [of 5000000 example_jobs_lookup employed_row "[later_row]"] by simp

text \<open>
  C1, at a status log of 5,000,000 rows of participant 1 in job 7 on 2022-03-01 followed
  by one row of the same participant and job on 2022-03-03. The batch loop cuts it
  after row 5,000,000. The stability table reports 2 job changes where a single pass
  reports 1; the turnover table reports 2 hires with a mean tenure of 0 days where a
  single pass reports 1 hire with a tenure of 2 days. Both differences are in integer
  columns or far beyond rounding.
\<close>

theorem chunking_changes_results:
  "rows (analyze_employment_stability (replicate 5000000 employed_row @ [later_row])) =
     [\<lparr>s_participantId = Some 1, s_month = Some ''2022-03'', s_employment_rate = Some 1,
       s_job_changes = 2, s_avg_balance = Some 10, s_stability_score = Some 1\<rparr>]
   \<and> stability_single_pass (replicate 5000000 employed_row @ [later_row]) =
     [\<lparr>s_participantId = Some 1, s_month = Some ''2022-03'', s_employment_rate = Some 1,
       s_job_changes = 1, s_avg_balance = Some 10, s_stability_score = Some 1\<rparr>]
   \<and> rows (calculate_turnover_rates example_jobs_lookup
             (replicate 5000000 employed_row @ [later_row])) =
     [\<lparr>r_month = Some ''2022-03'', r_employerId = Some 3, r_new_hires = 2,
       r_avg_tenure_days = Some 0, r_turnover_rate = 1\<rparr>]
   \<and> turnover_single_pass example_jobs_lookup (replicate 5000000 employed_row @ [later_row]) =
     [\<lparr>r_month = Some ''2022-03'', r_employerId = Some 3, r_new_hires = 1,
       r_avg_tenure_days = Some 2, r_turnover_rate = 1\<rparr>]"
proof -
  let ?logs = "replicate 5000000 employed_row @ [later_row]"
  have "rows (analyze_employment_stability ?logs) =
     map with_stability_score (map stability_reagg (group_by partial_key
       (batch_stability (replicate 5000000 employed_row) @ batch_stability [later_row])))"
    by (rule two_batches_default) simp
  also have "\<dots> = [\<lparr>s_participantId = Some 1, s_month = Some ''2022-03'', s_employment_rate = Some 1,
       s_job_changes = 2, s_avg_balance = Some 10, s_stability_score = Some 1\<rparr>]"
    unfolding batch_employed batch_later_one by code_simp
  finally have chunked: "rows (analyze_employment_stability ?logs) =
     [\<lparr>s_participantId = Some 1, s_month = Some ''2022-03'', s_employment_rate = Some 1,
       s_job_changes = 2, s_avg_balance = Some 10, s_stability_score = Some 1\<rparr>]" .
  have uniform: "\<forall>x \<in> set ?logs.
      stability_key x = march_key \<and> jobId x = Some 7 \<and> availableBalance x = Some 10"
    by (simp add: employed_row_key later_row_key) (simp add: employed_row_def later_row_def)
  have "batch_stability ?logs =
     [\<lparr>s_participantId = Some 1, s_month = Some ''2022-03'', s_employment_rate = Some 1,
       s_job_changes = 1, s_avg_balance = Some 10\<rparr>]"
    using batch_stability_uniform [of ?logs march_key "Some 7" "Some 10"] uniform
    by (simp add: march_key_def)
  then have single: "stability_single_pass ?logs =
     [\<lparr>s_participantId = Some 1, s_month = Some ''2022-03'', s_employment_rate = Some 1,
       s_job_changes = 1, s_avg_balance = Some 10, s_stability_score = Some 1\<rparr>]"
    by (simp add: stability_single_pass_def with_stability_score_def)
  have "batches 5000000 ?logs = [replicate 5000000 employed_row, [later_row]]"
    by (rule batches_two) simp_all
  then have "rows (calculate_turnover_rates example_jobs_lookup ?logs) =
      map turnover_agg (group_by tenure_key
        (batch_tenure example_jobs_lookup [employed_row]
           @ batch_tenure example_jobs_lookup [later_row]))"
    by (simp add: calculate_turnover_rates_def batch_size_default_def turnover_rows_eq
        tenure_employed)
  also have "\<dots> = [\<lparr>r_month = Some ''2022-03'', r_employerId = Some 3, r_new_hires = 2,
       r_avg_tenure_days = Some 0, r_turnover_rate = 1\<rparr>]"
    by code_simp
  finally have turnover: "rows (calculate_turnover_rates example_jobs_lookup ?logs) =
     [\<lparr>r_month = Some ''2022-03'', r_employerId = Some 3, r_new_hires = 2,
       r_avg_tenure_days = Some 0, r_turnover_rate = 1\<rparr>]" .
  have "turnover_single_pass example_jobs_lookup ?logs =
      map turnover_agg (group_by tenure_key
        (batch_tenure example_jobs_lookup [employed_row, later_row]))"
    by (simp only: turnover_single_pass_def tenure_whole)
  also have "\<dots> = [\<lparr>r_month = Some ''2022-03'', r_employerId = Some 3, r_new_hires = 1,
       r_avg_tenure_days = Some 2, r_turnover_rate = 1\<rparr>]"
    by code_simp
  finally have turnover_single: "turnover_single_pass example_jobs_lookup ?logs =
     [\<lparr>r_month = Some ''2022-03'', r_employerId = Some 3, r_new_hires = 1,
       r_avg_tenure_days = Some 2, r_turnover_rate = 1\<rparr>]" .
  from chunked single turnover turnover_single show ?thesis by blast
qed

section \<open>Rows without a timestamp\<close>

lemma absent_timestamp_group_exists:
  assumes "0 < batch_size" and "r \<in> set status_logs" and "timestamp r = None"
  shows "\<exists>g. filter (\<lambda>g. final_key g = (participantId r, None))
                 (rows (stability_batched batch_size status_logs)) = [g]"
proof -
  from assms(3) have "stability_key r = (participantId r, None)"
    by (simp add: stability_key_def month_of_def)
  with assms(2) have "(participantId r, None) \<in> stability_key ` set status_logs" by force
  then show ?thesis by (simp add: stability_rows_of_key [OF assms(1)])
qed

lemma status_log_name: "is_status_log ''ParticipantStatusLogs1.csv''"
  by code_simp

lemma undated_normalized: "normalize_row example_casts undated_raw_row = undated_row"
  by code_simp

lemma undated_load:
  "load_participant_status_logs example_casts undated_fs =
     Inr (replicate 5000000 undated_row @ [undated_row])"
proof -
  have "glob_status_logs undated_fs =
      [(''ParticipantStatusLogs1.csv'', Inr (replicate 5000000 undated_raw_row @ [undated_raw_row]))]"
    by (simp add: glob_status_logs_def undated_fs_def status_log_name)
  then show ?thesis
    by (simp add: load_participant_status_logs_def and_then_def undated_normalized)
qed

lemma undated_uniform:
  "\<forall>x \<in> set (replicate 5000000 undated_row @ [undated_row]).
     stability_key x = (Some 1, None) \<and> jobId x = Some 7 \<and> availableBalance x = Some (21 / 2)"
  by (simp add: stability_key_def month_of_def undated_row_def)

text \<open>
  C10, at one status log file of 5,000,001 rows of participant 1 in job 7 whose timestamp
  text is not in the loader's format. The loader keeps every row, with an absent
  timestamp, and the stability table has one row for (participant 1, absent month). The
  batch loop cuts the log after row 5,000,000 and phase 2 adds the two batches' counts:
  the row has \<open>job_changes\<close> 2, while the aggregate over exactly the participant's
  absent-timestamp rows (here the whole log) has 1.
\<close>

theorem absent_timestamp_group_per_batch:
  "load_participant_status_logs example_casts undated_fs =
     Inr (replicate 5000000 undated_row @ [undated_row])
   \<and> timestamp undated_row = None
   \<and> rows (analyze_employment_stability (replicate 5000000 undated_row @ [undated_row])) =
     [\<lparr>s_participantId = Some 1, s_month = None, s_employment_rate = Some 1,
       s_job_changes = 2, s_avg_balance = Some (21 / 2), s_stability_score = Some 1\<rparr>]
   \<and> absent_timestamp_rows (Some 1) (replicate 5000000 undated_row @ [undated_row]) =
     replicate 5000000 undated_row @ [undated_row]
   \<and> stability_agg ((Some 1, None),
        absent_timestamp_rows (Some 1) (replicate 5000000 undated_row @ [undated_row])) =
     \<lparr>s_participantId = Some 1, s_month = None, s_employment_rate = Some 1,
      s_job_changes = 1, s_avg_balance = Some (21 / 2)\<rparr>"
proof -
  let ?logs = "replicate 5000000 undated_row @ [undated_row]"
  let ?partial = "\<lparr>s_participantId = Some 1, s_month = None, s_employment_rate = Some 1,
      s_job_changes = 1, s_avg_balance = Some (21 / 2)\<rparr>"
  have absent: "timestamp undated_row = None" by (simp add: undated_row_def)
  have first: "batch_stability (replicate 5000000 undated_row) = [?partial]"
    using batch_stability_uniform
      [of "replicate 5000000 undated_row" "(Some 1, None)" "Some 7" "Some (21 / 2)"]
      undated_uniform
    by simp
  have second: "batch_stability [undated_row] = [?partial]"
    using batch_stability_uniform [of "[undated_row]" "(Some 1, None)" "Some 7" "Some (21 / 2)"]
      undated_uniform
    by simp
  have "rows (analyze_employment_stability ?logs) =
     map with_stability_score (map stability_reagg (group_by partial_key
       (batch_stability (replicate 5000000 undated_row) @ batch_stability [undated_row])))"
    by (rule two_batches_default) simp
  also have "\<dots> = [\<lparr>s_participantId = Some 1, s_month = None, s_employment_rate = Some 1,
       s_job_changes = 2, s_avg_balance = Some (21 / 2), s_stability_score = Some 1\<rparr>]"
    unfolding first second by code_simp
  finally have chunked: "rows (analyze_employment_stability ?logs) =
     [\<lparr>s_participantId = Some 1, s_month = None, s_employment_rate = Some 1,
       s_job_changes = 2, s_avg_balance = Some (21 / 2), s_stability_score = Some 1\<rparr>]" .
  have those: "absent_timestamp_rows (Some 1) ?logs = ?logs"
    by (simp add: absent_timestamp_rows_def undated_row_def)
  have "batch_stability ?logs = [?partial]"
    using batch_stability_uniform [of ?logs "(Some 1, None)" "Some 7" "Some (21 / 2)"]
      undated_uniform
    by simp
  moreover have "batch_stability ?logs = [stability_agg ((Some 1, None), ?logs)]"
    using group_by_constant_key [of ?logs stability_key "(Some 1, None)"] undated_uniform
    by (simp add: batch_stability_eq)
  ultimately have exact: "stability_agg ((Some 1, None), ?logs) = ?partial" by simp
  from undated_load absent chunked those exact show ?thesis by (simp only:)
qed

end
